theory Spec2Isabelle
  imports Complex_Main "HOL-Library.AList" "HOL-Library.Multiset"
begin

section \<open>Python values\<close>

text \<open>
  A Python float is a finite value, an infinity or NaN. A finite float is modelled by the
  real number it denotes, and the zero of negative sign by a value of its own: \<open>Finite 0\<close>
  is \<open>0.0\<close> (and the int \<open>0\<close>), \<open>NegZero\<close> is \<open>-0.0\<close>. The overflow of a result to an
  infinity is modelled; the rounding of a result to the nearest double, and with it the
  underflow of a tiny result to zero, is not.
\<close>

datatype pyfloat = Finite real | NegZero | PosInf | NegInf | NaN

text \<open>The values a record can hold: whatever a JSON document can hold.\<close>

datatype pyval =
    PNone
  | PBool bool
  | PInt int
  | PFloat pyfloat
  | PStr string
  | PList "pyval list"
  | PDict "(string \<times> pyval) list"

datatype error = TypeError | ValueError | OverflowError | ZeroDivisionError

text \<open>A dict with string keys, in insertion order; \<open>d.get(k)\<close> is \<open>map_of d k\<close>.\<close>

type_synonym row = "(string \<times> pyval) list"

subsection \<open>Float comparison and arithmetic\<close>

text \<open>Every comparison with NaN is false; the two zeros compare equal.\<close>

fun f_lt :: "pyfloat \<Rightarrow> pyfloat \<Rightarrow> bool" where
  "f_lt (Finite a) (Finite b) = (a < b)"
| "f_lt (Finite a) NegZero = (a < 0)"
| "f_lt NegZero (Finite b) = (0 < b)"
| "f_lt (Finite a) PosInf = True"
| "f_lt NegZero PosInf = True"
| "f_lt NegInf (Finite b) = True"
| "f_lt NegInf NegZero = True"
| "f_lt NegInf PosInf = True"
| "f_lt _ _ = False"

fun f_le :: "pyfloat \<Rightarrow> pyfloat \<Rightarrow> bool" where
  "f_le (Finite a) (Finite b) = (a \<le> b)"
| "f_le (Finite a) NegZero = (a \<le> 0)"
| "f_le NegZero (Finite b) = (0 \<le> b)"
| "f_le NegZero NegZero = True"
| "f_le (Finite a) PosInf = True"
| "f_le NegZero PosInf = True"
| "f_le NegInf (Finite b) = True"
| "f_le NegInf NegZero = True"
| "f_le NegInf PosInf = True"
| "f_le NegInf NegInf = True"
| "f_le PosInf PosInf = True"
| "f_le _ _ = False"

definition f_gt :: "pyfloat \<Rightarrow> pyfloat \<Rightarrow> bool" where
  "f_gt a b = f_lt b a"

text \<open>
  The least magnitude that rounds to an infinity: halfway between the largest finite
  double and \<open>2 ^ 1024\<close>.
\<close>

definition float_overflow :: real where
  "float_overflow = 2 ^ 1024 - 2 ^ 970"

definition f_norm :: "real \<Rightarrow> pyfloat" where
  "f_norm x = (if float_overflow \<le> x then PosInf
               else if x \<le> - float_overflow then NegInf
               else Finite x)"

definition signed_zero :: "bool \<Rightarrow> pyfloat" where
  \<comment> \<open>the zero of the given sign: negative or not\<close>
  "signed_zero negative = (if negative then NegZero else Finite 0)"

text \<open>A sum that is zero has the positive sign, unless both terms are \<open>-0.0\<close>.\<close>

fun f_add :: "pyfloat \<Rightarrow> pyfloat \<Rightarrow> pyfloat" where
  "f_add (Finite a) (Finite b) = f_norm (a + b)"
| "f_add NegZero b = b"
| "f_add a NegZero = a"
| "f_add NaN _ = NaN"
| "f_add _ NaN = NaN"
| "f_add PosInf NegInf = NaN"
| "f_add NegInf PosInf = NaN"
| "f_add PosInf _ = PosInf"
| "f_add NegInf _ = NegInf"
| "f_add (Finite a) b = b"

definition f_neg :: "pyfloat \<Rightarrow> pyfloat" where
  "f_neg x = (case x of Finite a \<Rightarrow> (if a = 0 then NegZero else Finite (- a))
              | NegZero \<Rightarrow> Finite 0 | PosInf \<Rightarrow> NegInf | NegInf \<Rightarrow> PosInf | NaN \<Rightarrow> NaN)"

definition inf_times :: "real \<Rightarrow> pyfloat" where
  \<comment> \<open>an infinity of positive sign times a finite value\<close>
  "inf_times b = (if b = 0 then NaN else if 0 < b then PosInf else NegInf)"

text \<open>The sign of a product or quotient that is zero is the product of the signs.\<close>

fun f_mul :: "pyfloat \<Rightarrow> pyfloat \<Rightarrow> pyfloat" where
  "f_mul (Finite a) (Finite b) =
     (if a * b = 0 then signed_zero ((a < 0) \<noteq> (b < 0)) else f_norm (a * b))"
| "f_mul NaN _ = NaN"
| "f_mul _ NaN = NaN"
| "f_mul NegZero (Finite b) = signed_zero (\<not> b < 0)"
| "f_mul (Finite a) NegZero = signed_zero (\<not> a < 0)"
| "f_mul NegZero NegZero = Finite 0"
| "f_mul NegZero _ = NaN"
| "f_mul _ NegZero = NaN"
| "f_mul PosInf (Finite b) = inf_times b"
| "f_mul NegInf (Finite b) = f_neg (inf_times b)"
| "f_mul (Finite a) PosInf = inf_times a"
| "f_mul (Finite a) NegInf = f_neg (inf_times a)"
| "f_mul PosInf PosInf = PosInf"
| "f_mul NegInf NegInf = PosInf"
| "f_mul PosInf NegInf = NegInf"
| "f_mul NegInf PosInf = NegInf"

text \<open>True division raises on a zero divisor, whatever the dividend.\<close>

fun f_div :: "pyfloat \<Rightarrow> pyfloat \<Rightarrow> error + pyfloat" where
  "f_div a (Finite b) =
     (if b = 0 then Inl ZeroDivisionError
      else Inr (case a of
                  Finite x \<Rightarrow> (if x = 0 then signed_zero (b < 0) else f_norm (x / b))
                | NegZero \<Rightarrow> signed_zero (0 < b)
                | PosInf \<Rightarrow> inf_times b
                | NegInf \<Rightarrow> f_neg (inf_times b)
                | NaN \<Rightarrow> NaN))"
| "f_div a NegZero = Inl ZeroDivisionError"
| "f_div (Finite a) PosInf = Inr (signed_zero (a < 0))"
| "f_div (Finite a) NegInf = Inr (signed_zero (\<not> a < 0))"
| "f_div NegZero PosInf = Inr NegZero"
| "f_div NegZero NegInf = Inr (Finite 0)"
| "f_div _ _ = Inr NaN"

subsection \<open>Strings\<close>

text \<open>
  A string is the sequence of the bytes of its UTF-8 encoding. White space is Python's
  whole set, ASCII or not. Letters and digits are the ASCII ones only: \<open>lower\<close> leaves a
  cased letter outside ASCII as it is, and \<open>float_of_str\<close> below rejects a decimal digit
  outside ASCII, where Python lower-cases the one and reads the other.
\<close>

definition lower_char :: "char \<Rightarrow> char" where
  "lower_char c =
     (case map_of (zip ''ABCDEFGHIJKLMNOPQRSTUVWXYZ'' ''abcdefghijklmnopqrstuvwxyz'') c of
        Some d \<Rightarrow> d | None \<Rightarrow> c)"

definition lower :: "string \<Rightarrow> string" where
  "lower s = map lower_char s"

fun starts_with :: "string \<Rightarrow> string \<Rightarrow> bool" where
  "starts_with [] s = True"
| "starts_with (p # ps) [] = False"
| "starts_with (p # ps) (c # cs) = (p = c \<and> starts_with ps cs)"

definition white_space :: "string list" where
  \<comment> \<open>the characters that \<open>str.isspace\<close> accepts: U+0009 to U+000D, U+001C to U+0020,
      U+0085, U+00A0, U+1680, U+2000 to U+200A, U+2028, U+2029, U+202F, U+205F, U+3000\<close>
  "white_space =
     [[CHR 0x09], [CHR 0x0A], [CHR 0x0B], [CHR 0x0C], [CHR 0x0D],
      [CHR 0x1C], [CHR 0x1D], [CHR 0x1E], [CHR 0x1F], [CHR 0x20],
      [CHR 0xC2, CHR 0x85], [CHR 0xC2, CHR 0xA0], [CHR 0xE1, CHR 0x9A, CHR 0x80],
      [CHR 0xE2, CHR 0x80, CHR 0x80], [CHR 0xE2, CHR 0x80, CHR 0x81],
      [CHR 0xE2, CHR 0x80, CHR 0x82], [CHR 0xE2, CHR 0x80, CHR 0x83],
      [CHR 0xE2, CHR 0x80, CHR 0x84], [CHR 0xE2, CHR 0x80, CHR 0x85],
      [CHR 0xE2, CHR 0x80, CHR 0x86], [CHR 0xE2, CHR 0x80, CHR 0x87],
      [CHR 0xE2, CHR 0x80, CHR 0x88], [CHR 0xE2, CHR 0x80, CHR 0x89],
      [CHR 0xE2, CHR 0x80, CHR 0x8A], [CHR 0xE2, CHR 0x80, CHR 0xA8],
      [CHR 0xE2, CHR 0x80, CHR 0xA9], [CHR 0xE2, CHR 0x80, CHR 0xAF],
      [CHR 0xE2, CHR 0x81, CHR 0x9F], [CHR 0xE3, CHR 0x80, CHR 0x80]]"

function drop_leading :: "string list \<Rightarrow> string \<Rightarrow> string" where
  \<comment> \<open>the string without the leading characters that are among \<open>ws\<close>\<close>
  "drop_leading ws s =
     (case find (\<lambda>w. w \<noteq> [] \<and> starts_with w s) ws of
        None \<Rightarrow> s
      | Some w \<Rightarrow> drop_leading ws (drop (length w) s))"
  by pat_completeness auto
termination
proof (relation "measure (\<lambda>(ws, s). length s)")
  show "wf (measure (\<lambda>(ws, s). length s))" by simp
next
  fix ws :: "string list" and s w :: string
  assume "find (\<lambda>w. w \<noteq> [] \<and> starts_with w s) ws = Some w"
  then have w: "w \<noteq> []" "starts_with w s" by (auto simp: find_Some_iff)
  then have "s \<noteq> []" by (cases w; cases s) auto
  with w show "((ws, drop (length w) s), (ws, s)) \<in> measure (\<lambda>(ws, s). length s)" by simp
qed

declare drop_leading.simps [simp del]

definition strip :: "string \<Rightarrow> string" where
  \<comment> \<open>\<open>s.strip()\<close>: the end of \<open>s\<close> is the start of its reversal\<close>
  "strip s = rev (drop_leading (map rev white_space) (rev (drop_leading white_space s)))"

definition remove_char :: "char \<Rightarrow> string \<Rightarrow> string" where
  \<comment> \<open>\<open>s.replace(c, "")\<close>\<close>
  "remove_char c s = filter (\<lambda>d. d \<noteq> c) s"

fun contains :: "string \<Rightarrow> string \<Rightarrow> bool" where
  \<comment> \<open>\<open>contains p s\<close> is Python's \<open>p in s\<close>\<close>
  "contains p [] = (p = [])"
| "contains p (c # cs) = (starts_with p (c # cs) \<or> contains p cs)"

subsection \<open>Python's \<open>float\<close> of a string\<close>

definition is_digit :: "char \<Rightarrow> bool" where
  "is_digit c = (c \<in> set ''0123456789'')"

definition digit_val :: "char \<Rightarrow> nat" where
  "digit_val c = length (takeWhile (\<lambda>d. d \<noteq> c) ''0123456789'')"

fun digitpart_ok :: "string \<Rightarrow> bool" where
  \<comment> \<open>digit (["_"] digit)*\<close>
  "digitpart_ok [] = False"
| "digitpart_ok [c] = is_digit c"
| "digitpart_ok (c # d # cs) =
     (is_digit c \<and> (if d = CHR ''_'' then digitpart_ok cs else digitpart_ok (d # cs)))"

definition digits_val :: "string \<Rightarrow> nat" where
  "digits_val s = foldl (\<lambda>n c. 10 * n + digit_val c) 0 (filter is_digit s)"

definition split_at :: "(char \<Rightarrow> bool) \<Rightarrow> string \<Rightarrow> string \<times> string option" where
  \<comment> \<open>the text before the first character satisfying \<open>P\<close>, and the text after it, if any\<close>
  "split_at P s =
     (takeWhile (\<lambda>c. \<not> P c) s,
      case dropWhile (\<lambda>c. \<not> P c) s of [] \<Rightarrow> None | _ # r \<Rightarrow> Some r)"

definition take_sign :: "string \<Rightarrow> bool \<times> string" where
  \<comment> \<open>an optional sign: is it negative, and the rest\<close>
  "take_sign s =
     (case s of
        c # cs \<Rightarrow> if c = CHR ''-'' then (True, cs) else if c = CHR ''+'' then (False, cs)
                  else (False, s)
      | [] \<Rightarrow> (False, s))"

definition parse_mantissa :: "string \<Rightarrow> real option" where
  \<comment> \<open>[digitpart] "." digitpart | digitpart ["."]\<close>
  "parse_mantissa s =
     (case split_at (\<lambda>c. c = CHR ''.'') s of
        (ip, None) \<Rightarrow> if digitpart_ok ip then Some (of_nat (digits_val ip)) else None
      | (ip, Some fp) \<Rightarrow>
          if (ip = [] \<or> digitpart_ok ip) \<and> (fp = [] \<or> digitpart_ok fp) \<and> \<not> (ip = [] \<and> fp = [])
          then Some (of_nat (digits_val ip)
                     + of_nat (digits_val fp) / 10 ^ length (filter is_digit fp))
          else None)"

definition parse_exponent :: "string \<Rightarrow> int option" where
  \<comment> \<open>[sign] digitpart\<close>
  "parse_exponent s =
     (case take_sign s of
        (neg, ds) \<Rightarrow> if digitpart_ok ds
                     then Some (if neg then - int (digits_val ds) else int (digits_val ds))
                     else None)"

definition scale10 :: "real \<Rightarrow> int \<Rightarrow> real" where
  "scale10 m e = (if 0 \<le> e then m * 10 ^ nat e else m / 10 ^ nat (- e))"

definition parse_abs :: "string \<Rightarrow> pyfloat option" where
  "parse_abs s =
     (if lower s = ''inf'' \<or> lower s = ''infinity'' then Some PosInf
      else if lower s = ''nan'' then Some NaN
      else case split_at (\<lambda>c. c = CHR ''e'' \<or> c = CHR ''E'') s of
             (m, None) \<Rightarrow> map_option f_norm (parse_mantissa m)
           | (m, Some ex) \<Rightarrow>
               (case (parse_mantissa m, parse_exponent ex) of
                  (Some x, Some e) \<Rightarrow> Some (f_norm (scale10 x e))
                | _ \<Rightarrow> None))"

definition float_of_str :: "string \<Rightarrow> error + pyfloat" where
  \<comment> \<open>\<open>float(s)\<close>: white space around the literal is ignored, anything else raises\<close>
  "float_of_str s =
     (case take_sign (strip s) of
        (neg, r) \<Rightarrow>
          (case parse_abs r of
             None \<Rightarrow> Inl ValueError
           | Some x \<Rightarrow> Inr (if neg then f_neg x else x)))"

subsection \<open>Truth value and \<open>float\<close> of a value that is not a string\<close>

fun truthy :: "pyval \<Rightarrow> bool" where
  "truthy PNone = False"
| "truthy (PBool b) = b"
| "truthy (PInt i) = (i \<noteq> 0)"
| "truthy (PFloat x) = (x \<noteq> Finite 0 \<and> x \<noteq> NegZero)"
| "truthy (PStr s) = (s \<noteq> [])"
| "truthy (PList xs) = (xs \<noteq> [])"
| "truthy (PDict kvs) = (kvs \<noteq> [])"

fun py_float :: "pyval \<Rightarrow> error + pyfloat" where
  "py_float PNone = Inl TypeError"
| "py_float (PBool b) = Inr (Finite (if b then 1 else 0))"
| "py_float (PInt i) =
     (if float_overflow \<le> \<bar>of_int i\<bar> then Inl OverflowError else Inr (Finite (of_int i)))"
| "py_float (PFloat x) = Inr x"
| "py_float (PStr s) = float_of_str s"
| "py_float (PList xs) = Inl TypeError"
| "py_float (PDict kvs) = Inl TypeError"

section \<open>Value coercion\<close>

text \<open>
  \<open>_get_value\<close>, the same method in every agent class and in the graph. The default is a
  number (\<open>0\<close> at every call site); a key that is missing yields the default, which then
  takes the last line as any other number does.
\<close>

definition get_value :: "row \<Rightarrow> string \<Rightarrow> pyfloat \<Rightarrow> error + pyfloat" where
  "get_value row key dflt =
     (let value = (case map_of row key of Some v \<Rightarrow> v | None \<Rightarrow> PFloat dflt) in
      case value of
        PStr s \<Rightarrow>
          (case float_of_str (strip (remove_char CHR '','' (remove_char CHR ''%'' s))) of
             Inr x \<Rightarrow> Inr x
           | Inl e \<Rightarrow> Inr dflt)
      | _ \<Rightarrow> if truthy value then py_float value else Inr dflt)"

section \<open>Errors, display and the schemas\<close>

definition bind_e :: "error + 'a \<Rightarrow> ('a \<Rightarrow> error + 'b) \<Rightarrow> error + 'b" where
  \<comment> \<open>statement sequencing: an exception raised by the first statement ends the function\<close>
  "bind_e m f = (case m of Inl e \<Rightarrow> Inl e | Inr x \<Rightarrow> f x)"

text \<open>
  Python's own display functions are parameters of the model: \<open>str_value\<close> is \<open>str(v)\<close> for
  a value \<open>v\<close> that is not a string, \<open>format_fixed n x\<close> is \<open>format(x, ".nf")\<close>.
\<close>

record builtins =
  str_value :: "pyval \<Rightarrow> string"
  format_fixed :: "nat \<Rightarrow> pyfloat \<Rightarrow> string"

definition py_str :: "builtins \<Rightarrow> pyval \<Rightarrow> string" where
  "py_str B v = (case v of PStr s \<Rightarrow> s | _ \<Rightarrow> str_value B v)"

definition py_int :: "pyfloat \<Rightarrow> error + int" where
  \<comment> \<open>\<open>int(x)\<close> truncates towards zero\<close>
  "py_int x =
     (case x of
        Finite a \<Rightarrow> Inr (if 0 \<le> a then \<lfloor>a\<rfloor> else \<lceil>a\<rceil>)
      | NegZero \<Rightarrow> Inr 0
      | PosInf \<Rightarrow> Inl OverflowError
      | NegInf \<Rightarrow> Inl OverflowError
      | NaN \<Rightarrow> Inl ValueError)"

definition arrow :: string where
  \<comment> \<open>the UTF-8 bytes of the rightwards arrow U+2192\<close>
  "arrow = [CHR 0xE2, CHR 0x86, CHR 0x92]"

datatype InsightCategory = ROAS | CTR | CONVERSION | FREQUENCY | SPEND | CREATIVE

datatype AdStatus = PAUSE | FIX | TEST | KEEP

record InsightRecommendation =
  category :: InsightCategory
  condition :: string
  recommendation :: string
  priority :: string
  affected_ads :: "string list"
  metrics :: "(string \<times> pyfloat) list"

record AdInsight =
  ad_id :: string
  ad_name :: string
  status :: AdStatus
  recommendations :: "string list"
  metrics_ad :: "(string \<times> pyfloat) list"
  issues :: "string list"

definition row_ad_id :: "builtins \<Rightarrow> row \<Rightarrow> string" where
  \<comment> \<open>\<open>str(row.get("ad_id", "unknown"))\<close>\<close>
  "row_ad_id B row =
     py_str B (case map_of row ''ad_id'' of Some v \<Rightarrow> v | None \<Rightarrow> PStr ''unknown'')"

definition row_ad_name :: "builtins \<Rightarrow> row \<Rightarrow> string" where
  "row_ad_name B row =
     py_str B (case map_of row ''ad_name'' of Some v \<Rightarrow> v | None \<Rightarrow> PStr ''unknown'')"

fun for_rows :: "(row \<Rightarrow> error + 'a list) \<Rightarrow> row list \<Rightarrow> 'a list \<Rightarrow> error + 'a list" where
  \<comment> \<open>\<open>for row in data:\<close> with a body that appends to \<open>insights\<close>\<close>
  "for_rows body [] insights = Inr insights"
| "for_rows body (row # rest) insights =
     bind_e (body row) (\<lambda>new. for_rows body rest (insights @ new))"

definition emitted :: "error + 'a list \<Rightarrow> 'a list" where
  \<comment> \<open>the findings a call returned; none when it raised\<close>
  "emitted r = (case r of Inr xs \<Rightarrow> xs | Inl e \<Rightarrow> [])"

section \<open>The category analyzers\<close>

definition ROASAgent_row :: "builtins \<Rightarrow> row \<Rightarrow> error + InsightRecommendation list" where
  "ROASAgent_row B row =
     bind_e (get_value row ''roas'' (Finite 0)) (\<lambda>roas.
     bind_e (get_value row ''spend'' (Finite 0)) (\<lambda>spend.
     bind_e (get_value row ''frequency'' (Finite 0)) (\<lambda>frequency.
     let ad = row_ad_id B row in
     if f_le (Finite 1) roas \<and> f_le roas (Finite 2) then
       Inr [\<lparr>category = ROAS,
             condition = ''ROAS '' @ format_fixed B 2 roas @ '' (1-2 range)'',
             recommendation = ''Test 2-3 new hooks/thumbnails; rotate in new ad creative; cap frequency to avoid fatigue'',
             priority = ''high'',
             affected_ads = [ad],
             metrics = [(''roas'', roas), (''spend'', spend), (''frequency'', frequency)]\<rparr>]
     else if f_lt roas (Finite 1) \<and> f_gt spend (Finite 50) then
       Inr [\<lparr>category = ROAS,
             condition = ''ROAS '' @ format_fixed B 2 roas @ '' (unprofitable)'',
             recommendation = ''Pause immediately or reduce budget by 75%; audit targeting and creative quality'',
             priority = ''high'',
             affected_ads = [ad],
             metrics = [(''roas'', roas), (''spend'', spend)]\<rparr>]
     else if f_gt roas (Finite 3) then
       Inr [\<lparr>category = ROAS,
             condition = ''ROAS '' @ format_fixed B 2 roas @ '' (high performance)'',
             recommendation = ''Scale budget by 20-30%; create lookalike audiences; duplicate winning creative'',
             priority = ''medium'',
             affected_ads = [ad],
             metrics = [(''roas'', roas), (''spend'', spend)]\<rparr>]
     else Inr [])))"

definition ROASAgent_analyze :: "builtins \<Rightarrow> row list \<Rightarrow> error + InsightRecommendation list" where
  "ROASAgent_analyze B data = for_rows (ROASAgent_row B) data []"

definition CTRAgent_row :: "builtins \<Rightarrow> row \<Rightarrow> error + InsightRecommendation list" where
  "CTRAgent_row B row =
     bind_e (get_value row ''ctr'' (Finite 0)) (\<lambda>ctr.
     bind_e (get_value row ''ctr_7d'' (Finite 0)) (\<lambda>ctr_7d.
     bind_e (get_value row ''ctr_prev_7d'' (Finite 0)) (\<lambda>ctr_prev_7d.
     bind_e (get_value row ''ctr_drop'' (Finite 0)) (\<lambda>ctr_drop.
     bind_e (get_value row ''impressions'' (Finite 0)) (\<lambda>impressions.
     let ad = row_ad_id B row in
     if f_gt ctr_drop (Finite 30)
        \<or> (f_gt ctr_prev_7d (Finite 0) \<and> f_lt ctr_7d (f_mul ctr_prev_7d (Finite 0.7))) then
       Inr [\<lparr>category = CTR,
             condition = ''CTR dropped '' @ format_fixed B 1 ctr_drop @ ''% vs previous period'',
             recommendation = ''Creative fatigue detected; rotate in fresh ad creative; test new angles/hooks'',
             priority = ''high'',
             affected_ads = [ad],
             metrics = [(''ctr'', ctr), (''ctr_7d'', ctr_7d), (''ctr_prev_7d'', ctr_prev_7d),
                        (''ctr_drop'', ctr_drop)]\<rparr>]
     else if f_lt ctr (Finite 1) \<and> f_gt impressions (Finite 1000) then
       bind_e (py_int impressions) (\<lambda>n.
       Inr [\<lparr>category = CTR,
             condition = ''Low CTR '' @ format_fixed B 2 ctr @ ''% with '' @ str_value B (PInt n)
                         @ '' impressions'',
             recommendation = ''Poor creative engagement; test stronger hooks, better visuals, or clearer CTA'',
             priority = ''high'',
             affected_ads = [ad],
             metrics = [(''ctr'', ctr), (''impressions'', impressions)]\<rparr>])
     else if f_gt ctr (Finite 3) then
       Inr [\<lparr>category = CTR,
             condition = ''Strong CTR '' @ format_fixed B 2 ctr @ ''%'',
             recommendation = ''High engagement; scale impressions, create similar variants, analyze winning elements'',
             priority = ''medium'',
             affected_ads = [ad],
             metrics = [(''ctr'', ctr), (''impressions'', impressions)]\<rparr>]
     else Inr [])))))"

definition CTRAgent_analyze :: "builtins \<Rightarrow> row list \<Rightarrow> error + InsightRecommendation list" where
  "CTRAgent_analyze B data = for_rows (CTRAgent_row B) data []"

definition ConversionAgent_row :: "builtins \<Rightarrow> row \<Rightarrow> error + InsightRecommendation list" where
  "ConversionAgent_row B row =
     bind_e (get_value row ''atc_to_purchase'' (Finite 0)) (\<lambda>atc_to_purchase.
     bind_e (get_value row ''ctr'' (Finite 0)) (\<lambda>ctr.
     bind_e (get_value row ''add_to_cart'' (Finite 0)) (\<lambda>add_to_cart.
     bind_e (get_value row ''purchases'' (Finite 0)) (\<lambda>purchases.
     let ad = row_ad_id B row in
     if f_gt ctr (Finite 1.5) \<and> f_lt atc_to_purchase (Finite 20) \<and> f_gt add_to_cart (Finite 10) then
       Inr [\<lparr>category = CONVERSION,
             condition = ''CTR '' @ format_fixed B 2 ctr @ ''% healthy but ATC'' @ arrow
                         @ ''Purchase '' @ format_fixed B 1 atc_to_purchase @ ''% < 20%'',
             recommendation = ''Audit landing page and checkout flow; check for friction, page speed, trust signals; review pricing and shipping'',
             priority = ''high'',
             affected_ads = [ad],
             metrics = [(''ctr'', ctr), (''atc_to_purchase'', atc_to_purchase),
                        (''add_to_cart'', add_to_cart)]\<rparr>]
     else if f_lt add_to_cart (Finite 5) \<and> f_gt ctr (Finite 1) then
       bind_e (py_int add_to_cart) (\<lambda>n.
       Inr [\<lparr>category = CONVERSION,
             condition = ''Low cart adds ('' @ str_value B (PInt n) @ '') despite clicks'',
             recommendation = ''Landing page issue; ensure message match, improve product presentation, add urgency/scarcity'',
             priority = ''high'',
             affected_ads = [ad],
             metrics = [(''add_to_cart'', add_to_cart), (''ctr'', ctr)]\<rparr>])
     else if f_gt atc_to_purchase (Finite 30) then
       Inr [\<lparr>category = CONVERSION,
             condition = ''Strong ATC'' @ arrow @ ''Purchase rate ''
                         @ format_fixed B 1 atc_to_purchase @ ''%'',
             recommendation = ''Excellent conversion funnel; scale traffic to this flow, document winning elements'',
             priority = ''low'',
             affected_ads = [ad],
             metrics = [(''atc_to_purchase'', atc_to_purchase), (''purchases'', purchases)]\<rparr>]
     else Inr []))))"

definition ConversionAgent_analyze :: "builtins \<Rightarrow> row list \<Rightarrow> error + InsightRecommendation list" where
  "ConversionAgent_analyze B data = for_rows (ConversionAgent_row B) data []"

definition FrequencyAgent_row :: "builtins \<Rightarrow> row \<Rightarrow> error + InsightRecommendation list" where
  "FrequencyAgent_row B row =
     bind_e (get_value row ''frequency'' (Finite 0)) (\<lambda>frequency.
     bind_e (get_value row ''ctr'' (Finite 0)) (\<lambda>ctr.
     bind_e (get_value row ''ctr_drop'' (Finite 0)) (\<lambda>ctr_drop.
     let ad = row_ad_id B row in
     if f_gt frequency (Finite 3.5) \<and> (f_gt ctr_drop (Finite 20) \<or> f_lt ctr (Finite 1)) then
       Inr [\<lparr>category = FREQUENCY,
             condition = ''Frequency '' @ format_fixed B 2 frequency @ '' with performance decline'',
             recommendation = ''Ad fatigue detected; cap frequency at 3, expand audience, or rotate creative'',
             priority = ''high'',
             affected_ads = [ad],
             metrics = [(''frequency'', frequency), (''ctr'', ctr), (''ctr_drop'', ctr_drop)]\<rparr>]
     else if f_gt frequency (Finite 5) then
       Inr [\<lparr>category = FREQUENCY,
             condition = ''Very high frequency '' @ format_fixed B 2 frequency,
             recommendation = ''Audience saturation; expand targeting, add exclusions, or pause for creative refresh'',
             priority = ''high'',
             affected_ads = [ad],
             metrics = [(''frequency'', frequency)]\<rparr>]
     else Inr [])))"

definition FrequencyAgent_analyze :: "builtins \<Rightarrow> row list \<Rightarrow> error + InsightRecommendation list" where
  "FrequencyAgent_analyze B data = for_rows (FrequencyAgent_row B) data []"

section \<open>The status decision\<close>

text \<open>
  The \<open>if\<close>/\<open>elif\<close> cascade of \<open>decide_status\<close>: the status, the recommendations and the
  issues it leaves behind.
\<close>

definition status_cascade ::
  "builtins \<Rightarrow> pyfloat \<Rightarrow> pyfloat \<Rightarrow> pyfloat \<Rightarrow> pyfloat \<Rightarrow> InsightRecommendation list
     \<Rightarrow> AdStatus \<times> string list \<times> string list" where
  "status_cascade B roas ctr spend frequency ad_insights =
     (let high_priority_issues = filter (\<lambda>i. priority i = ''high'') ad_insights in
      if f_lt roas (Finite 1) \<and> f_gt spend (Finite 50) then
        (PAUSE, [], [''Unprofitable: ROAS '' @ format_fixed B 2 roas])
      else if f_gt frequency (Finite 5) \<and> f_lt ctr (Finite 0.5) then
        (PAUSE, [], [''Severe fatigue: Frequency '' @ format_fixed B 2 frequency @ '', CTR ''
                       @ format_fixed B 2 ctr @ ''%''])
      else if 2 \<le> length high_priority_issues then
        (FIX, map recommendation high_priority_issues, map condition high_priority_issues)
      else if (f_le (Finite 1) roas \<and> f_le roas (Finite 2.5))
              \<or> (f_gt ctr (Finite 2) \<and> f_lt roas (Finite 2)) then
        (TEST, map recommendation ad_insights, [])
      else if f_gt roas (Finite 2.5) \<and> f_gt ctr (Finite 1.5) then
        (KEEP, [''Continue monitoring; performing well''], [])
      else (KEEP, [], []))"

definition decide_status :: "builtins \<Rightarrow> row \<Rightarrow> InsightRecommendation list \<Rightarrow> error + AdInsight" where
  "decide_status B row insights =
     (let ad = row_ad_id B row;
          name = row_ad_name B row;
          ad_insights = filter (\<lambda>i. ad \<in> set (affected_ads i)) insights in
      bind_e (get_value row ''roas'' (Finite 0)) (\<lambda>roas.
      bind_e (get_value row ''ctr'' (Finite 0)) (\<lambda>ctr.
      bind_e (get_value row ''spend'' (Finite 0)) (\<lambda>spend.
      bind_e (get_value row ''frequency'' (Finite 0)) (\<lambda>frequency.
      case status_cascade B roas ctr spend frequency ad_insights of
        (st, recs, iss) \<Rightarrow>
          let recs' = (if recs = [] then map recommendation (take 3 ad_insights) else recs) in
          Inr \<lparr>ad_id = ad,
               ad_name = name,
               status = st,
               recommendations = take 5 recs',
               metrics_ad = [(''roas'', roas), (''ctr'', ctr), (''spend'', spend),
                             (''frequency'', frequency)],
               issues = iss\<rparr>)))))"

section \<open>The aggregator\<close>

definition priority_order :: "string \<Rightarrow> nat" where
  \<comment> \<open>\<open>priority_order.get(x.priority, 3)\<close>\<close>
  "priority_order p =
     (if p = ''high'' then 0 else if p = ''medium'' then 1 else if p = ''low'' then 2 else 3)"

text \<open>\<open>list.sort\<close> is a stable sort; \<open>sort_key\<close> is the library's stable insertion sort.\<close>

definition sort_insights :: "InsightRecommendation list \<Rightarrow> InsightRecommendation list" where
  "sort_insights all_insights = sort_key (\<lambda>x. priority_order (priority x)) all_insights"

definition all_insights_of ::
  "InsightRecommendation list \<Rightarrow> InsightRecommendation list \<Rightarrow> InsightRecommendation list
     \<Rightarrow> InsightRecommendation list \<Rightarrow> InsightRecommendation list" where
  "all_insights_of roas_insights ctr_insights conversion_insights frequency_insights =
     sort_insights (roas_insights @ ctr_insights @ conversion_insights @ frequency_insights)"

fun sum_values :: "row list \<Rightarrow> string \<Rightarrow> pyfloat \<Rightarrow> error + pyfloat" where
  \<comment> \<open>\<open>sum(self._get_value(row, key, 0) for row in data)\<close>, from the running total\<close>
  "sum_values [] key acc = Inr acc"
| "sum_values (row # rest) key acc =
     bind_e (get_value row key (Finite 0)) (\<lambda>x. sum_values rest key (f_add acc x))"

record metrics_overview =
  total_spend :: pyfloat
  total_revenue :: pyfloat
  overall_roas :: pyfloat
  total_purchases :: pyfloat
  total_clicks :: pyfloat
  total_impressions :: pyfloat
  overall_ctr :: pyfloat
  total_ads :: nat

definition calc_metrics_overview :: "row list \<Rightarrow> error + metrics_overview" where
  "calc_metrics_overview data =
     bind_e (sum_values data ''spend'' (Finite 0)) (\<lambda>spend.
     bind_e (sum_values data ''purchase_value'' (Finite 0)) (\<lambda>revenue.
     bind_e (sum_values data ''purchases'' (Finite 0)) (\<lambda>purchases.
     bind_e (sum_values data ''clicks'' (Finite 0)) (\<lambda>clicks.
     bind_e (sum_values data ''impressions'' (Finite 0)) (\<lambda>impressions.
     bind_e (if f_gt spend (Finite 0) then f_div revenue spend else Inr (Finite 0)) (\<lambda>roas.
     bind_e (if f_gt impressions (Finite 0)
             then bind_e (f_div clicks impressions) (\<lambda>q. Inr (f_mul q (Finite 100)))
             else Inr (Finite 0)) (\<lambda>ctr.
     Inr \<lparr>total_spend = spend,
          total_revenue = revenue,
          overall_roas = roas,
          total_purchases = purchases,
          total_clicks = clicks,
          total_impressions = impressions,
          overall_ctr = ctr,
          total_ads = length data\<rparr>)))))))"

definition aggregate_insights ::
  "InsightRecommendation list \<Rightarrow> InsightRecommendation list \<Rightarrow> InsightRecommendation list
     \<Rightarrow> InsightRecommendation list \<Rightarrow> row list
     \<Rightarrow> error + InsightRecommendation list \<times> metrics_overview" where
  "aggregate_insights roas_insights ctr_insights conversion_insights frequency_insights data =
     (let all_insights =
            all_insights_of roas_insights ctr_insights conversion_insights frequency_insights in
      bind_e (calc_metrics_overview data) (\<lambda>overview. Inr (all_insights, overview)))"

section \<open>The workflow\<close>

fun decide_all :: "builtins \<Rightarrow> row list \<Rightarrow> InsightRecommendation list \<Rightarrow> error + AdInsight list" where
  \<comment> \<open>the node \<open>_decide_status\<close>\<close>
  "decide_all B [] all_insights = Inr []"
| "decide_all B (row # rest) all_insights =
     bind_e (decide_status B row all_insights) (\<lambda>d.
     bind_e (decide_all B rest all_insights) (\<lambda>ds. Inr (d # ds)))"

text \<open>
  The graph is a chain of its nodes; the last node, the summary, only calls the language
  model and is left out.
\<close>

definition run ::
  "builtins \<Rightarrow> row list
     \<Rightarrow> error + InsightRecommendation list \<times> metrics_overview \<times> AdInsight list" where
  "run B normalized_data =
     bind_e (ROASAgent_analyze B normalized_data) (\<lambda>roas_insights.
     bind_e (CTRAgent_analyze B normalized_data) (\<lambda>ctr_insights.
     bind_e (ConversionAgent_analyze B normalized_data) (\<lambda>conversion_insights.
     bind_e (FrequencyAgent_analyze B normalized_data) (\<lambda>frequency_insights.
     bind_e (aggregate_insights roas_insights ctr_insights conversion_insights
               frequency_insights normalized_data) (\<lambda>(all_insights, overview).
     bind_e (decide_all B normalized_data all_insights) (\<lambda>ad_insights.
     Inr (all_insights, overview, ad_insights)))))))"

section \<open>The column mapper\<close>

definition STANDARD_COLUMNS :: "(string \<times> string list) list" where
  "STANDARD_COLUMNS =
     [(''campaign_name'', [''campaign name'', ''campaign'', ''campaign_name'']),
      (''ad_set_name'', [''ad set name'', ''ad set'', ''adset'', ''ad_set_name'']),
      (''ad_name'', [''ad name'', ''ad'', ''ad_name'', ''creative name'']),
      (''ad_id'', [''ad id'', ''ad_id'', ''adid'', ''creative id'']),
      (''spend'', [''spend'', ''cost'', ''amount spent'', ''budget spent'']),
      (''impressions'', [''impressions'', ''impr'', ''views'']),
      (''clicks'', [''clicks'', ''link clicks'', ''click'']),
      (''ctr'', [''ctr'', ''ctr %'', ''click through rate'', ''clickthrough rate'']),
      (''frequency'', [''frequency'', ''freq'', ''avg frequency'']),
      (''roas'', [''roas'', ''return on ad spend'', ''roi'']),
      (''purchases'', [''purchases'', ''conversions'', ''sales'', ''purchase'']),
      (''purchase_value'', [''purchase value'', ''revenue'', ''conversion value'', ''sales value'']),
      (''add_to_cart'', [''adds to cart'', ''add to cart'', ''atc'', ''cart adds'']),
      (''atc_to_purchase'', [''atc'' @ arrow @ ''purchase %'', ''atc to purchase'',
                             ''cart to purchase'', ''conversion rate'']),
      (''ctr_7d'', [''ctr 7d %'', ''ctr 7d'', ''ctr last 7 days'']),
      (''ctr_prev_7d'', [''ctr prev7 %'', ''ctr prev 7d'', ''ctr previous 7 days'']),
      (''ctr_drop'', [''ctr drop vs prev7 %'', ''ctr drop'', ''ctr decline'']),
      (''status'', [''status'', ''state'', ''ad status''])]"

fun match_columns :: "string \<Rightarrow> (string \<times> string list) list \<Rightarrow> string option" where
  \<comment> \<open>the loop of \<open>fuzzy_match\<close> over the items of the table, in their order\<close>
  "match_columns column_lower [] = None"
| "match_columns column_lower ((standard, variations) # rest) =
     (if column_lower \<in> set variations then Some standard
      else if list_ex (\<lambda>variant. contains variant column_lower \<or> contains column_lower variant)
                variations
      then Some standard
      else match_columns column_lower rest)"

definition fuzzy_match :: "string \<Rightarrow> string option" where
  "fuzzy_match column = match_columns (strip (lower column)) STANDARD_COLUMNS"

text \<open>
  The \<open>try\<close> block of \<open>map_columns_with_llm\<close> calls the language model, parses its answer
  and merges the parsed object into the mapping. It either completes, with the entries
  it merged, or raises, after the entries it had merged by then (none when the call
  itself fails).
\<close>

datatype llm_outcome = Returned "(string \<times> string) list" | Raised "(string \<times> string) list"

definition dict_update :: "(string \<times> string) list \<Rightarrow> (string \<times> string) list \<Rightarrow> (string \<times> string) list" where
  \<comment> \<open>\<open>mapping.update(entries)\<close>\<close>
  "dict_update mapping entries = foldl (\<lambda>m (k, v). AList.update k v m) mapping entries"

fun first_pass ::
  "string list \<Rightarrow> (string \<times> string) list \<Rightarrow> string list \<Rightarrow> (string \<times> string) list \<times> string list" where
  \<comment> \<open>fuzzy matching: the mapping and the unmapped columns\<close>
  "first_pass [] mapping unmapped = (mapping, unmapped)"
| "first_pass (col # cols) mapping unmapped =
     (case fuzzy_match col of
        Some matched \<Rightarrow> first_pass cols (AList.update col matched mapping) unmapped
      | None \<Rightarrow> first_pass cols mapping (unmapped @ [col]))"

definition map_columns_with_llm ::
  "(string list \<Rightarrow> llm_outcome) \<Rightarrow> string list \<Rightarrow> (string \<times> string) list" where
  "map_columns_with_llm llm columns =
     (case first_pass columns [] [] of
        (mapping, unmapped) \<Rightarrow>
          if unmapped \<noteq> [] then
            (case llm unmapped of
               Returned llm_mapping \<Rightarrow> dict_update mapping llm_mapping
             | Raised merged \<Rightarrow>
                 foldl (\<lambda>m col. AList.update col ''unknown'' m) (dict_update mapping merged)
                   unmapped)
          else mapping)"

definition normalize_row :: "(string \<times> string) list \<Rightarrow> row \<Rightarrow> row" where
  "normalize_row reverse_map row =
     foldl (\<lambda>new_row (orig_col, value).
              AList.update (case map_of reverse_map orig_col of Some std \<Rightarrow> std | None \<Rightarrow> orig_col)
                value new_row)
       [] row"

definition normalize_data ::
  "(string list \<Rightarrow> llm_outcome) \<Rightarrow> row list \<Rightarrow> (string \<times> string) list option \<Rightarrow> row list" where
  "normalize_data llm data column_mapping =
     (case data of
        [] \<Rightarrow> []
      | first # _ \<Rightarrow>
          let mapping = (case column_mapping of
                           None \<Rightarrow> map_columns_with_llm llm (map fst first)
                         | Some m \<Rightarrow> m);
              reverse_map = filter (\<lambda>(orig, std). std \<noteq> ''unknown'') mapping
          in map (normalize_row reverse_map) data)"

section \<open>Example inputs\<close>

definition ex_finding :: "string \<Rightarrow> string \<Rightarrow> InsightRecommendation" where
  \<comment> \<open>a finding with the given condition text and priority, for the ad \<open>unknown\<close>\<close>
  "ex_finding c p =
     \<lparr>category = SPEND, condition = c, recommendation = ''Review '' @ c, priority = p,
      affected_ads = [''unknown''], metrics = []\<rparr>"

definition ex_totals_row :: row where
  "ex_totals_row =
     [(''spend'', PInt 1500), (''purchase_value'', PInt 2700), (''clicks'', PInt 1200),
      (''impressions'', PInt 75000)]"

definition ex_refund_row :: row where
  \<comment> \<open>a record whose spend is a credit\<close>
  "ex_refund_row = [(''spend'', PInt (- 10)), (''purchase_value'', PInt 5)]"

text \<open>Display functions for the examples: fixed-point formatting and \<open>str\<close> of an int.\<close>

definition round_half_even :: "real \<Rightarrow> int" where
  "round_half_even x =
     (let f = \<lfloor>x\<rfloor>; d = x - of_int f in
      if d < 1 / 2 then f else if 1 / 2 < d then f + 1 else if even f then f else f + 1)"

fun dec_digits :: "nat \<Rightarrow> string" where
  "dec_digits n =
     (if n < 10 then [''0123456789'' ! n]
      else dec_digits (n div 10) @ [''0123456789'' ! (n mod 10)])"

declare dec_digits.simps [simp del]

definition fixed_digits :: "nat \<Rightarrow> real \<Rightarrow> string" where
  \<comment> \<open>the magnitude of a finite value with \<open>n\<close> digits after the point\<close>
  "fixed_digits n a =
     (let ds = dec_digits (nat (round_half_even (\<bar>a\<bar> * 10 ^ n)));
          padded = replicate (Suc n - length ds) CHR ''0'' @ ds;
          k = length padded - n
      in take k padded @ (if n = 0 then [] else ''.'' @ drop k padded))"

definition ex_format_fixed :: "nat \<Rightarrow> pyfloat \<Rightarrow> string" where
  "ex_format_fixed n x =
     (case x of
        Finite a \<Rightarrow> (if a < 0 then ''-'' else []) @ fixed_digits n a
      | NegZero \<Rightarrow> ''-'' @ fixed_digits n 0
      | PosInf \<Rightarrow> ''inf''
      | NegInf \<Rightarrow> ''-inf''
      | NaN \<Rightarrow> ''nan'')"

definition ex_str_value :: "pyval \<Rightarrow> string" where
  "ex_str_value v =
     (case v of
        PNone \<Rightarrow> ''None''
      | PBool b \<Rightarrow> (if b then ''True'' else ''False'')
      | PInt i \<Rightarrow> (if i < 0 then ''-'' else []) @ dec_digits (nat \<bar>i\<bar>)
      | _ \<Rightarrow> ''<object>'')"

definition ex_builtins :: builtins where
  "ex_builtins = \<lparr>str_value = ex_str_value, format_fixed = ex_format_fixed\<rparr>"

definition ex_unprofitable_row :: row where
  "ex_unprofitable_row =
     [(''roas'', PFloat (Finite 0.5)), (''spend'', PInt 100), (''frequency'', PInt 6),
      (''ctr'', PFloat (Finite 0.2))]"

definition ex_roas_row :: "real \<Rightarrow> row" where
  "ex_roas_row x = [(''ad_id'', PStr ''ad_7''), (''roas'', PFloat (Finite x)), (''spend'', PInt 10)]"

definition ex_scenario_row :: row where
  "ex_scenario_row =
     [(''spend'', PInt 1500), (''roas'', PFloat (Finite 1.8)), (''ctr'', PFloat (Finite 1.6)),
      (''frequency'', PFloat (Finite 2.8)), (''impressions'', PInt 75000),
      (''purchases'', PInt 45), (''purchase_value'', PInt 2700), (''add_to_cart'', PInt 120),
      (''atc_to_purchase'', PFloat (Finite 37.5))]"

text \<open>The two findings and the decision of the scenario record.\<close>

definition scenario_roas_finding :: "builtins \<Rightarrow> InsightRecommendation" where
  "scenario_roas_finding B =
     \<lparr>category = ROAS,
      condition = ''ROAS '' @ format_fixed B 2 (Finite 1.8) @ '' (1-2 range)'',
      recommendation = ''Test 2-3 new hooks/thumbnails; rotate in new ad creative; cap frequency to avoid fatigue'',
      priority = ''high'',
      affected_ads = [''unknown''],
      metrics = [(''roas'', Finite 1.8), (''spend'', Finite 1500), (''frequency'', Finite 2.8)]\<rparr>"

definition scenario_conversion_finding :: "builtins \<Rightarrow> InsightRecommendation" where
  "scenario_conversion_finding B =
     \<lparr>category = CONVERSION,
      condition = ''Strong ATC'' @ arrow @ ''Purchase rate '' @ format_fixed B 1 (Finite 37.5)
                  @ ''%'',
      recommendation = ''Excellent conversion funnel; scale traffic to this flow, document winning elements'',
      priority = ''low'',
      affected_ads = [''unknown''],
      metrics = [(''atc_to_purchase'', Finite 37.5), (''purchases'', Finite 45)]\<rparr>"

definition scenario_decision :: "builtins \<Rightarrow> AdInsight" where
  "scenario_decision B =
     \<lparr>ad_id = ''unknown'',
      ad_name = ''unknown'',
      status = TEST,
      recommendations =
        [''Test 2-3 new hooks/thumbnails; rotate in new ad creative; cap frequency to avoid fatigue'',
         ''Excellent conversion funnel; scale traffic to this flow, document winning elements''],
      metrics_ad = [(''roas'', Finite 1.8), (''ctr'', Finite 1.6), (''spend'', Finite 1500),
                    (''frequency'', Finite 2.8)],
      issues = []\<rparr>"

definition ex_failing_llm :: "string list \<Rightarrow> llm_outcome" where
  \<comment> \<open>a collaborator whose call fails\<close>
  "ex_failing_llm unmapped = Raised []"

definition ex_raw_row :: row where
  "ex_raw_row = [(''Spend'', PInt 5), (''zzz'', PInt 7)]"


definition ex_no_id_row :: "real \<Rightarrow> row" where
  \<comment> \<open>a record without an \<open>ad_id\<close> key\<close>
  "ex_no_id_row x = [(''roas'', PFloat (Finite x)), (''spend'', PInt 10)]"

definition ex_ad_row :: "string \<Rightarrow> real \<Rightarrow> row" where
  "ex_ad_row ad x = (''ad_id'', PStr ad) # ex_no_id_row x"

definition ex_range_finding :: "string \<Rightarrow> real \<Rightarrow> string \<Rightarrow> InsightRecommendation" where
  \<comment> \<open>the 1-2 range finding for the ad \<open>ad\<close>, its \<open>roas\<close> being \<open>x\<close>, displayed as \<open>shown\<close>\<close>
  "ex_range_finding ad x shown =
     \<lparr>category = ROAS,
      condition = ''ROAS '' @ shown @ '' (1-2 range)'',
      recommendation = ''Test 2-3 new hooks/thumbnails; rotate in new ad creative; cap frequency to avoid fatigue'',
      priority = ''high'',
      affected_ads = [ad],
      metrics = [(''roas'', Finite x), (''spend'', Finite 10), (''frequency'', Finite 0)]\<rparr>"

section \<open>Evaluation lemmas\<close>

lemma float_overflow_big: "2 ^ 970 \<le> float_overflow"
proof -
  have "float_overflow = 2 ^ 970 * (2 ^ 54 - 1)"
    unfolding float_overflow_def by (simp add: algebra_simps flip: power_add)
  also have "\<dots> \<ge> 2 ^ 970 * 1" by (intro mult_left_mono) simp_all
  finally show ?thesis by simp
qed

lemma float_overflow_gt: "2 ^ 64 < float_overflow"
proof -
  have "(2::real) ^ 64 < 2 ^ 970" by (rule power_strict_increasing) simp_all
  with float_overflow_big show ?thesis by linarith
qed

lemma not_overflow: "x \<le> 2 ^ 64 \<Longrightarrow> \<not> float_overflow \<le> x"
  using float_overflow_gt by linarith

lemma f_norm_small: "\<bar>x\<bar> \<le> 2 ^ 64 \<Longrightarrow> f_norm x = Finite x"
  using float_overflow_gt unfolding f_norm_def by auto

lemma f_norm_0 [simp]: "f_norm 0 = Finite 0"
  by (simp add: f_norm_small)

lemma signed_zero_simps [simp]:
  "signed_zero False = Finite 0" "signed_zero True = NegZero"
  by (simp_all add: signed_zero_def)

lemma bind_e_simps [simp]:
  "bind_e (Inr x) f = f x" "bind_e (Inl e) f = Inl e"
  by (simp_all add: bind_e_def)

section \<open>Value coercion: where it returns and where it raises\<close>

lemma get_value_errors: "get_value row key d = Inl e \<Longrightarrow> e = TypeError \<or> e = OverflowError"
  unfolding get_value_def Let_def
  by (cases "case map_of row key of None \<Rightarrow> PFloat d | Some v \<Rightarrow> v")
     (auto split: sum.splits if_splits)

lemma sum_values_errors:
  "sum_values data key acc = Inl e \<Longrightarrow> e = TypeError \<or> e = OverflowError"
proof (induction data arbitrary: acc)
  case Nil
  then show ?case by simp
next
  case (Cons row rest)
  show ?case
  proof (cases "get_value row key (Finite 0)")
    case (Inl e')
    with Cons.prems have "e = e'" by simp
    with Inl get_value_errors show ?thesis by blast
  next
    case (Inr x)
    with Cons.prems have "sum_values rest key (f_add acc x) = Inl e" by simp
    then show ?thesis by (rule Cons.IH)
  qed
qed

lemma signed_zero_examples:
  "f_add (Finite 0) NegZero = Finite 0"
  "f_add NegZero NegZero = NegZero"
  "f_mul (Finite 0) (Finite (- 5)) = NegZero"
  "f_div (Finite 0) (Finite (- 5)) = Inr NegZero"
  "f_div (Finite 5) NegInf = Inr NegZero"
  "f_div (Finite 5) NegZero = Inl ZeroDivisionError"
  "f_lt NegZero (Finite 0) = False"
  "f_le (Finite 0) NegZero = True"
  "truthy (PFloat NegZero) = False"
  by simp_all

lemma f_div_positive: "f_gt s (Finite 0) \<Longrightarrow> f_div r s \<noteq> Inl e"
  by (cases s; cases r) (auto simp: f_gt_def)

lemma get_value_missing: "map_of row key = None \<Longrightarrow> get_value row key d = Inr d"
  by (cases d) (auto simp: get_value_def)

lemma get_value_None: "map_of row key = Some PNone \<Longrightarrow> get_value row key d = Inr d"
  by (simp add: get_value_def)

lemma get_value_str:
  "map_of row key = Some (PStr s) \<Longrightarrow>
   get_value row key d =
     Inr (case float_of_str (strip (remove_char CHR '','' (remove_char CHR ''%'' s))) of
            Inr x \<Rightarrow> x | Inl e \<Rightarrow> d)"
  by (simp add: get_value_def split: sum.splits)

lemmas parse_defs =
  float_of_str_def remove_char_def take_sign_def parse_abs_def
  lower_def lower_char_def split_at_def parse_mantissa_def parse_exponent_def scale10_def
  digits_val_def digit_val_def is_digit_def f_norm_small f_neg_def

lemma strip_examples:
  "strip ''  1234.5 '' = ''1234.5''"
  "strip ''1234.5'' = ''1234.5''"
  "strip ''abc'' = ''abc''"
  "strip [] = []"
  "strip ''-2.5e1'' = ''-2.5e1''"
  "strip ''-0'' = ''-0''"
  "strip [CHR 0xC2, CHR 0xA0, CHR ''1'', CHR ''.'', CHR ''5'', CHR 0xE3, CHR 0x80, CHR 0x80]
     = ''1.5''"
  "strip ''1.5'' = ''1.5''"
  by code_simp+

lemma get_value_examples:
  "get_value [(k, PStr ''  1,234.5% '')] k d = Inr (Finite 1234.5)"
  "get_value [(k, PStr ''abc'')] k d = Inr d"
  "get_value [(k, PStr [])] k d = Inr d"
  "get_value [(k, PStr ''-2.5e1'')] k d = Inr (Finite (- 25))"
  "get_value [(k, PStr ''-0'')] k d = Inr NegZero"
  "get_value
     [(k, PStr [CHR 0xC2, CHR 0xA0, CHR ''1'', CHR ''.'', CHR ''5'', CHR 0xE3, CHR 0x80,
                CHR 0x80])] k d
     = Inr (Finite 1.5)"
  by (simp_all add: get_value_def strip_examples parse_defs)

lemma get_value_raises_overflow:
  "get_value [(''roas'', PInt (10 ^ 400))] ''roas'' (Finite 0) = Inl OverflowError"
proof -
  have "float_overflow \<le> 10 ^ 400"
  proof -
    have "float_overflow \<le> 2 ^ 1024" by (simp add: float_overflow_def)
    also have "(2::real) ^ 1024 \<le> 2 ^ 1200" by (rule power_increasing) simp_all
    also have "\<dots> = (8::real) ^ 400" by (simp flip: power_mult)
    also have "\<dots> \<le> 10 ^ 400" by (rule power_mono) simp_all
    finally show ?thesis .
  qed
  then show ?thesis by (simp add: get_value_def)
qed

text \<open>
  C5. Value coercion is meant never to raise. A string, \<open>None\<close> and a missing key are
  handled (lemmas \<open>get_value_str\<close>, \<open>get_value_None\<close>, \<open>get_value_missing\<close>,
  \<open>get_value_examples\<close>), but the last line of \<open>_get_value\<close> calls \<open>float\<close> outside the
  \<open>try\<close> block: on a record whose \<open>roas\<close> is the non-empty list \<open>[1]\<close> the coercion raises
  \<open>TypeError\<close>.
\<close>

theorem get_value_raises:
  "get_value [(''roas'', PList [PInt 1])] ''roas'' (Finite 0) = Inl TypeError"
  by (simp add: get_value_def)

section \<open>The column mapper on the canonical names\<close>

lemma fuzzy_match_canonical:
  "map fuzzy_match (map fst STANDARD_COLUMNS) =
     [Some ''campaign_name'', Some ''ad_set_name'', Some ''ad_name'', Some ''ad_name'',
      Some ''spend'', Some ''impressions'', Some ''clicks'', Some ''ctr'', Some ''frequency'',
      Some ''roas'', Some ''purchases'', Some ''purchases'', Some ''ad_name'', Some ''purchases'',
      Some ''ctr'', Some ''ctr'', Some ''ctr'', Some ''status'']"
  by code_simp

text \<open>
  C6. Fuzzy matching should map every canonical field name to itself. It does not: the
  canonical name \<open>ad_id\<close> is an alias of the field \<open>ad_id\<close>, but the entry of \<open>ad_name\<close>
  comes earlier in the table and its alias \<open>ad\<close> is a substring of \<open>ad_id\<close>, so \<open>ad_id\<close> is
  mapped to \<open>ad_name\<close>.
\<close>

theorem fuzzy_match_ad_id: "fuzzy_match ''ad_id'' = Some ''ad_name''"
  by code_simp

section \<open>The aggregator: order of the findings\<close>

text \<open>
  C3. The aggregator concatenates the findings of the four analyzers in the order ROAS,
  CTR, conversion, frequency and sorts them by the rank of their priority (high 0,
  medium 1, low 2, anything else 3): the result is sorted by rank, it is a permutation
  of the concatenation, and the findings of one rank, and so of one priority, keep the
  order they have in the concatenation.
\<close>

theorem aggregate_insights_order:
  assumes "aggregate_insights rs cs vs fs data = Inr (all_insights, overview)"
  shows "sorted (map (\<lambda>x. priority_order (priority x)) all_insights) \<and>
         mset all_insights = mset (rs @ cs @ vs @ fs) \<and>
         (\<forall>k. filter (\<lambda>x. priority_order (priority x) = k) all_insights
               = filter (\<lambda>x. priority_order (priority x) = k) (rs @ cs @ vs @ fs)) \<and>
         (\<forall>p. filter (\<lambda>x. priority x = p) all_insights
               = filter (\<lambda>x. priority x = p) (rs @ cs @ vs @ fs)) \<and>
         priority_order ''high'' = 0 \<and> priority_order ''medium'' = 1 \<and>
         priority_order ''low'' = 2 \<and>
         (\<forall>p. p \<notin> {''high'', ''medium'', ''low''} \<longrightarrow> priority_order p = 3)"
proof -
  let ?rank = "\<lambda>x. priority_order (priority x)"
  let ?xs = "rs @ cs @ vs @ fs"
  from assms have ai: "all_insights = sort_key ?rank ?xs"
    by (auto simp: aggregate_insights_def all_insights_of_def sort_insights_def Let_def bind_e_def
             split: sum.splits)
  have stable: "filter (\<lambda>x. ?rank x = k) all_insights = filter (\<lambda>x. ?rank x = k) ?xs" for k
    unfolding ai by (rule sort_key_stable)
  have "filter (\<lambda>x. priority x = p) all_insights = filter (\<lambda>x. priority x = p) ?xs" for p
  proof -
    have "filter (\<lambda>x. priority x = p) ys
          = filter (\<lambda>x. priority x = p) (filter (\<lambda>x. ?rank x = priority_order p) ys)" for ys
      by (induction ys) auto
    then show ?thesis using stable [of "priority_order p"] by metis
  qed
  moreover have "sorted (map ?rank all_insights)" unfolding ai by (rule sorted_sort_key)
  moreover have "mset all_insights = mset ?xs" unfolding ai by simp
  moreover have "priority_order ''high'' = 0" "priority_order ''medium'' = 1"
    "priority_order ''low'' = 2" by (simp_all add: priority_order_def)
  moreover have "\<forall>p. p \<notin> {''high'', ''medium'', ''low''} \<longrightarrow> priority_order p = 3"
    by (simp add: priority_order_def)
  ultimately show ?thesis using stable by blast
qed

text \<open>
  Findings with the priorities low, high, medium, high come out as high, high, medium,
  low, the two high ones in their order of arrival.
\<close>

theorem aggregate_insights_order_witness:
  "aggregate_insights [ex_finding ''1'' ''low'', ex_finding ''2'' ''high'']
      [ex_finding ''3'' ''medium''] [ex_finding ''4'' ''high''] [] []
   = Inr ([ex_finding ''2'' ''high'', ex_finding ''4'' ''high'', ex_finding ''3'' ''medium'',
           ex_finding ''1'' ''low''],
          \<lparr>total_spend = Finite 0, total_revenue = Finite 0, overall_roas = Finite 0,
           total_purchases = Finite 0, total_clicks = Finite 0, total_impressions = Finite 0,
           overall_ctr = Finite 0, total_ads = 0\<rparr>)
   \<and> sorted (map (\<lambda>x. priority_order (priority x))
        [ex_finding ''2'' ''high'', ex_finding ''4'' ''high'', ex_finding ''3'' ''medium'',
         ex_finding ''1'' ''low''])"
proof -
  have a: "aggregate_insights [ex_finding ''1'' ''low'', ex_finding ''2'' ''high'']
      [ex_finding ''3'' ''medium''] [ex_finding ''4'' ''high''] [] []
   = Inr ([ex_finding ''2'' ''high'', ex_finding ''4'' ''high'', ex_finding ''3'' ''medium'',
           ex_finding ''1'' ''low''],
          \<lparr>total_spend = Finite 0, total_revenue = Finite 0, overall_roas = Finite 0,
           total_purchases = Finite 0, total_clicks = Finite 0, total_impressions = Finite 0,
           overall_ctr = Finite 0, total_ads = 0\<rparr>)"
    by (simp add: aggregate_insights_def all_insights_of_def sort_insights_def
          calc_metrics_overview_def priority_order_def ex_finding_def f_gt_def)
  from aggregate_insights_order [OF a] a show ?thesis by blast
qed

section \<open>The aggregator: account-level ratios\<close>

text \<open>
  C4 (as amended). For every record list the aggregator raises no \<open>ZeroDivisionError\<close>.
  When it returns, the totals are the sums of the coerced fields; \<open>overall_roas\<close> is \<open>0\<close>
  unless \<open>total_spend > 0\<close> holds (so also for a negative or NaN total), and is
  \<open>total_revenue / total_spend\<close> when it holds; \<open>overall_ctr\<close> is \<open>0\<close> unless
  \<open>total_impressions > 0\<close> holds, and is \<open>total_clicks / total_impressions * 100\<close> when it
  holds. It returns whenever the five sums do.
\<close>

theorem metrics_overview_guarded:
  "calc_metrics_overview data \<noteq> Inl ZeroDivisionError \<and>
   (\<forall>m. calc_metrics_overview data = Inr m \<longrightarrow>
      sum_values data ''spend'' (Finite 0) = Inr (total_spend m) \<and>
      sum_values data ''purchase_value'' (Finite 0) = Inr (total_revenue m) \<and>
      sum_values data ''clicks'' (Finite 0) = Inr (total_clicks m) \<and>
      sum_values data ''impressions'' (Finite 0) = Inr (total_impressions m) \<and>
      (\<not> f_gt (total_spend m) (Finite 0) \<longrightarrow> overall_roas m = Finite 0) \<and>
      (f_gt (total_spend m) (Finite 0) \<longrightarrow>
         f_div (total_revenue m) (total_spend m) = Inr (overall_roas m)) \<and>
      (\<forall>s r. total_spend m = Finite s \<and> total_revenue m = Finite r \<and> 0 < s \<longrightarrow>
         overall_roas m = f_norm (r / s)) \<and>
      (\<not> f_gt (total_impressions m) (Finite 0) \<longrightarrow> overall_ctr m = Finite 0) \<and>
      (f_gt (total_impressions m) (Finite 0) \<longrightarrow>
         (\<exists>q. f_div (total_clicks m) (total_impressions m) = Inr q \<and>
              overall_ctr m = f_mul q (Finite 100))) \<and>
      (\<forall>c i. total_clicks m = Finite c \<and> total_impressions m = Finite i \<and> 0 < i \<longrightarrow>
         overall_ctr m = f_mul (f_norm (c / i)) (Finite 100))) \<and>
   ((\<exists>a. sum_values data ''spend'' (Finite 0) = Inr a) \<and>
    (\<exists>a. sum_values data ''purchase_value'' (Finite 0) = Inr a) \<and>
    (\<exists>a. sum_values data ''purchases'' (Finite 0) = Inr a) \<and>
    (\<exists>a. sum_values data ''clicks'' (Finite 0) = Inr a) \<and>
    (\<exists>a. sum_values data ''impressions'' (Finite 0) = Inr a)
    \<longrightarrow> (\<exists>m. calc_metrics_overview data = Inr m))"
proof (intro conjI allI impI)
  show "calc_metrics_overview data \<noteq> Inl ZeroDivisionError"
  proof
    assume a: "calc_metrics_overview data = Inl ZeroDivisionError"
    then show False
      unfolding calc_metrics_overview_def
      by (auto simp: bind_e_def f_div_positive split: sum.splits if_splits
               dest: sum_values_errors)
  qed
next
  fix m assume "calc_metrics_overview data = Inr m"
  then have *: "sum_values data ''spend'' (Finite 0) = Inr (total_spend m) \<and>
      sum_values data ''purchase_value'' (Finite 0) = Inr (total_revenue m) \<and>
      sum_values data ''clicks'' (Finite 0) = Inr (total_clicks m) \<and>
      sum_values data ''impressions'' (Finite 0) = Inr (total_impressions m) \<and>
      Inr (overall_roas m) = (if f_gt (total_spend m) (Finite 0) then f_div (total_revenue m) (total_spend m) else Inr (Finite 0)) \<and>
      Inr (overall_ctr m) = (if f_gt (total_impressions m) (Finite 0)
             then bind_e (f_div (total_clicks m) (total_impressions m)) (\<lambda>q. Inr (f_mul q (Finite 100)))
             else Inr (Finite 0))"
    unfolding calc_metrics_overview_def
    by (auto simp: bind_e_def split: sum.splits if_splits)
  from * show "sum_values data ''spend'' (Finite 0) = Inr (total_spend m)" by simp
  from * show "sum_values data ''purchase_value'' (Finite 0) = Inr (total_revenue m)" by simp
  from * show "sum_values data ''clicks'' (Finite 0) = Inr (total_clicks m)" by simp
  from * show "sum_values data ''impressions'' (Finite 0) = Inr (total_impressions m)" by simp
  { assume "\<not> f_gt (total_spend m) (Finite 0)"
    with * show "overall_roas m = Finite 0" by simp }
  { assume "f_gt (total_spend m) (Finite 0)"
    with * show "f_div (total_revenue m) (total_spend m) = Inr (overall_roas m)" by simp }
  { fix s r assume "total_spend m = Finite s \<and> total_revenue m = Finite r \<and> 0 < s"
    with * show "overall_roas m = f_norm (r / s)" by (simp add: f_gt_def) }
  { assume "\<not> f_gt (total_impressions m) (Finite 0)"
    with * show "overall_ctr m = Finite 0" by simp }
  { assume "f_gt (total_impressions m) (Finite 0)"
    with * show "\<exists>q. f_div (total_clicks m) (total_impressions m) = Inr q \<and>
              overall_ctr m = f_mul q (Finite 100)"
      by (auto simp: bind_e_def split: sum.splits) }
  { fix c i assume "total_clicks m = Finite c \<and> total_impressions m = Finite i \<and> 0 < i"
    with * show "overall_ctr m = f_mul (f_norm (c / i)) (Finite 100)" by (simp add: f_gt_def) }
next
  assume a: "(\<exists>a. sum_values data ''spend'' (Finite 0) = Inr a) \<and>
    (\<exists>a. sum_values data ''purchase_value'' (Finite 0) = Inr a) \<and>
    (\<exists>a. sum_values data ''purchases'' (Finite 0) = Inr a) \<and>
    (\<exists>a. sum_values data ''clicks'' (Finite 0) = Inr a) \<and>
    (\<exists>a. sum_values data ''impressions'' (Finite 0) = Inr a)"
  then obtain sp rv pu cl im where
    s: "sum_values data ''spend'' (Finite 0) = Inr sp"
       "sum_values data ''purchase_value'' (Finite 0) = Inr rv"
       "sum_values data ''purchases'' (Finite 0) = Inr pu"
       "sum_values data ''clicks'' (Finite 0) = Inr cl"
       "sum_values data ''impressions'' (Finite 0) = Inr im"
    by blast
  have r: "\<exists>q. (if f_gt sp (Finite 0) then f_div rv sp else Inr (Finite 0)) = Inr q"
    by (cases "f_div rv sp") (auto simp: f_div_positive)
  have c: "\<exists>q. (if f_gt im (Finite 0)
             then bind_e (f_div cl im) (\<lambda>q. Inr (f_mul q (Finite 100)))
             else Inr (Finite 0)) = Inr q"
    by (cases "f_div cl im") (auto simp: f_div_positive)
  from r c obtain q1 q2 where
    "(if f_gt sp (Finite 0) then f_div rv sp else Inr (Finite 0)) = Inr q1"
    "(if f_gt im (Finite 0)
             then bind_e (f_div cl im) (\<lambda>q. Inr (f_mul q (Finite 100)))
             else Inr (Finite 0)) = Inr q2" by blast
  with s show "\<exists>m. calc_metrics_overview data = Inr m"
    unfolding calc_metrics_overview_def by simp
qed

text \<open>
  One record with positive totals, where both ratios are computed, and the empty list,
  where both guards answer \<open>0\<close>.
\<close>

theorem metrics_overview_guarded_witness:
  "calc_metrics_overview [ex_totals_row] =
     Inr \<lparr>total_spend = Finite 1500, total_revenue = Finite 2700, overall_roas = Finite 1.8,
          total_purchases = Finite 0, total_clicks = Finite 1200,
          total_impressions = Finite 75000, overall_ctr = Finite 1.6, total_ads = 1\<rparr>
   \<and> f_gt (Finite 1500) (Finite 0) \<and> f_gt (Finite 75000) (Finite 0)
   \<and> f_div (Finite 2700) (Finite 1500) = Inr (Finite 1.8)
   \<and> calc_metrics_overview [] =
     Inr \<lparr>total_spend = Finite 0, total_revenue = Finite 0, overall_roas = Finite 0,
          total_purchases = Finite 0, total_clicks = Finite 0,
          total_impressions = Finite 0, overall_ctr = Finite 0, total_ads = 0\<rparr>
   \<and> \<not> f_gt (Finite 0) (Finite 0)"
  using metrics_overview_guarded [of "[ex_totals_row]"] metrics_overview_guarded [of "[]"]
  by (simp add: calc_metrics_overview_def ex_totals_row_def get_value_def not_overflow
        f_norm_small f_gt_def)

text \<open>
  The claim as first stated has the ratio \<open>total_revenue / total_spend\<close> for every total
  spend other than \<open>0\<close>. With a total spend of \<open>-10\<close> and a revenue of \<open>5\<close> the
  aggregator answers \<open>0\<close>, not \<open>-0.5\<close>.
\<close>

theorem metrics_overview_negative_spend:
  "calc_metrics_overview [ex_refund_row] =
     Inr \<lparr>total_spend = Finite (- 10), total_revenue = Finite 5, overall_roas = Finite 0,
          total_purchases = Finite 0, total_clicks = Finite 0, total_impressions = Finite 0,
          overall_ctr = Finite 0, total_ads = 1\<rparr>
   \<and> Finite (- 10) \<noteq> Finite 0
   \<and> f_div (Finite 5) (Finite (- 10)) = Inr (Finite (- 0.5))
   \<and> Finite 0 \<noteq> Finite (- 0.5)"
  by (simp add: calc_metrics_overview_def ex_refund_row_def get_value_def not_overflow
        f_norm_small f_gt_def)

section \<open>Example values\<close>

lemma dec_digits_small: "n < 10 \<Longrightarrow> dec_digits n = [''0123456789'' ! n]"
  by (simp add: dec_digits.simps)

lemma dec_digits_large:
  "\<not> n < 10 \<Longrightarrow> dec_digits n = dec_digits (n div 10) @ [''0123456789'' ! (n mod 10)]"
  by (subst dec_digits.simps) simp

lemmas ex_display_defs =
  ex_builtins_def ex_format_fixed_def fixed_digits_def ex_str_value_def round_half_even_def
  dec_digits_small dec_digits_large Let_def

lemmas coerce_defs = get_value_def not_overflow f_norm_small f_gt_def

lemma ex_unprofitable_values:
  "get_value ex_unprofitable_row ''roas'' (Finite 0) = Inr (Finite 0.5)"
  "get_value ex_unprofitable_row ''ctr'' (Finite 0) = Inr (Finite 0.2)"
  "get_value ex_unprofitable_row ''spend'' (Finite 0) = Inr (Finite 100)"
  "get_value ex_unprofitable_row ''frequency'' (Finite 0) = Inr (Finite 6)"
  "row_ad_id ex_builtins ex_unprofitable_row = ''unknown''"
  "row_ad_name ex_builtins ex_unprofitable_row = ''unknown''"
  by (simp_all add: ex_unprofitable_row_def coerce_defs row_ad_id_def row_ad_name_def py_str_def)

lemma ex_format_values:
  "format_fixed ex_builtins 2 (Finite 0.5) = ''0.50''"
  "format_fixed ex_builtins 2 (Finite 1.8) = ''1.80''"
  "format_fixed ex_builtins 1 (Finite 37.5) = ''37.5''"
  by (simp_all add: ex_display_defs)

section \<open>The status decision: the first guard\<close>




section \<open>The status decision: the recommendations\<close>

text \<open>
  C9. The decision returned by \<open>decide_status\<close> has at most five recommendations. When
  the branch taken by the cascade left the recommendations empty, they are the
  recommendations of the first three findings of the record, in the order of the
  supplied list; otherwise they are the first five the branch produced.
\<close>

theorem decide_status_recommendations:
  assumes "decide_status B row insights = Inr d"
  shows "length (recommendations d) \<le> 5 \<and>
         (\<forall>roas ctr spend frequency.
            get_value row ''roas'' (Finite 0) = Inr roas \<and>
            get_value row ''ctr'' (Finite 0) = Inr ctr \<and>
            get_value row ''spend'' (Finite 0) = Inr spend \<and>
            get_value row ''frequency'' (Finite 0) = Inr frequency \<longrightarrow>
            (let ad_insights = filter (\<lambda>i. row_ad_id B row \<in> set (affected_ads i)) insights;
                 branch = fst (snd (status_cascade B roas ctr spend frequency ad_insights))
             in (branch = [] \<longrightarrow> recommendations d = map recommendation (take 3 ad_insights)) \<and>
                (branch \<noteq> [] \<longrightarrow> recommendations d = take 5 branch)))"
proof -
  let ?ai = "filter (\<lambda>i. row_ad_id B row \<in> set (affected_ads i)) insights"
  from assms obtain r c s f where
    g: "get_value row ''roas'' (Finite 0) = Inr r" "get_value row ''ctr'' (Finite 0) = Inr c"
       "get_value row ''spend'' (Finite 0) = Inr s" "get_value row ''frequency'' (Finite 0) = Inr f"
    unfolding decide_status_def Let_def
    by (cases "get_value row ''roas'' (Finite 0)"; cases "get_value row ''ctr'' (Finite 0)";
        cases "get_value row ''spend'' (Finite 0)"; cases "get_value row ''frequency'' (Finite 0)")
       simp_all
  obtain st recs iss where sc: "status_cascade B r c s f ?ai = (st, recs, iss)"
    by (cases "status_cascade B r c s f ?ai") blast
  from assms g sc have d:
    "recommendations d = take 5 (if recs = [] then map recommendation (take 3 ?ai) else recs)"
    by (auto simp: decide_status_def Let_def)
  have "length (recommendations d) \<le> 5" unfolding d by simp
  moreover have "recs = [] \<longrightarrow> recommendations d = map recommendation (take 3 ?ai)"
    unfolding d by (simp add: take_map)
  moreover have "recs \<noteq> [] \<longrightarrow> recommendations d = take 5 recs"
    unfolding d by simp
  ultimately show ?thesis using g sc by (simp add: Let_def)
qed

text \<open>
  A paused record with four findings: the pause branch adds no recommendation, and the
  decision carries those of the first three findings.
\<close>

theorem decide_status_recommendations_witness:
  "decide_status ex_builtins ex_unprofitable_row
       [ex_finding ''1'' ''high'', ex_finding ''2'' ''low'', ex_finding ''3'' ''high'',
        ex_finding ''4'' ''medium''] =
     Inr \<lparr>ad_id = ''unknown'', ad_name = ''unknown'', status = PAUSE,
          recommendations = [''Review 1'', ''Review 2'', ''Review 3''],
          metrics_ad = [(''roas'', Finite 0.5), (''ctr'', Finite 0.2), (''spend'', Finite 100),
                        (''frequency'', Finite 6)],
          issues = [''Unprofitable: ROAS 0.50'']\<rparr>
   \<and> length [''Review 1'', ''Review 2'', ''Review 3''] \<le> 5
   \<and> fst (snd (status_cascade ex_builtins (Finite 0.5) (Finite 0.2) (Finite 100) (Finite 6)
        [ex_finding ''1'' ''high'', ex_finding ''2'' ''low'', ex_finding ''3'' ''high'',
         ex_finding ''4'' ''medium''])) = []"
proof -
  have a: "decide_status ex_builtins ex_unprofitable_row
       [ex_finding ''1'' ''high'', ex_finding ''2'' ''low'', ex_finding ''3'' ''high'',
        ex_finding ''4'' ''medium''] =
     Inr \<lparr>ad_id = ''unknown'', ad_name = ''unknown'', status = PAUSE,
          recommendations = [''Review 1'', ''Review 2'', ''Review 3''],
          metrics_ad = [(''roas'', Finite 0.5), (''ctr'', Finite 0.2), (''spend'', Finite 100),
                        (''frequency'', Finite 6)],
          issues = [''Unprofitable: ROAS 0.50'']\<rparr>"
    using ex_unprofitable_values ex_format_values
    by (simp add: decide_status_def status_cascade_def ex_finding_def f_gt_def Let_def)
  have b: "fst (snd (status_cascade ex_builtins (Finite 0.5) (Finite 0.2) (Finite 100) (Finite 6)
        [ex_finding ''1'' ''high'', ex_finding ''2'' ''low'', ex_finding ''3'' ''high'',
         ex_finding ''4'' ''medium''])) = []"
    by (simp add: status_cascade_def f_gt_def)
  from decide_status_recommendations [OF a]
  have "length (recommendations
          \<lparr>ad_id = ''unknown'', ad_name = ''unknown'', status = PAUSE,
           recommendations = [''Review 1'', ''Review 2'', ''Review 3''],
           metrics_ad = [(''roas'', Finite 0.5), (''ctr'', Finite 0.2), (''spend'', Finite 100),
                         (''frequency'', Finite 6)],
           issues = [''Unprofitable: ROAS 0.50'']\<rparr>) \<le> 5"
    by (rule conjunct1)
  then have "length [''Review 1'', ''Review 2'', ''Review 3''] \<le> 5" by simp
  with a b show ?thesis by blast
qed

section \<open>The analyzers: the affected ad of a finding\<close>

lemma ROASAgent_row_ads:
  "ROASAgent_row B row = Inr new \<Longrightarrow> x \<in> set new \<Longrightarrow> affected_ads x = [row_ad_id B row]"
  unfolding ROASAgent_row_def Let_def
  by (cases "get_value row ''roas'' (Finite 0)"; cases "get_value row ''spend'' (Finite 0)";
      cases "get_value row ''frequency'' (Finite 0)")
     (auto split: if_splits)

lemma CTRAgent_row_ads:
  "CTRAgent_row B row = Inr new \<Longrightarrow> x \<in> set new \<Longrightarrow> affected_ads x = [row_ad_id B row]"
  unfolding CTRAgent_row_def Let_def
  by (cases "get_value row ''ctr'' (Finite 0)"; cases "get_value row ''ctr_7d'' (Finite 0)";
      cases "get_value row ''ctr_prev_7d'' (Finite 0)"; cases "get_value row ''ctr_drop'' (Finite 0)";
      cases "get_value row ''impressions'' (Finite 0)")
     (auto simp: bind_e_def split: if_splits sum.splits)

lemma ConversionAgent_row_ads:
  "ConversionAgent_row B row = Inr new \<Longrightarrow> x \<in> set new \<Longrightarrow> affected_ads x = [row_ad_id B row]"
  unfolding ConversionAgent_row_def Let_def
  by (cases "get_value row ''atc_to_purchase'' (Finite 0)"; cases "get_value row ''ctr'' (Finite 0)";
      cases "get_value row ''add_to_cart'' (Finite 0)"; cases "get_value row ''purchases'' (Finite 0)")
     (auto simp: bind_e_def split: if_splits sum.splits)

lemma FrequencyAgent_row_ads:
  "FrequencyAgent_row B row = Inr new \<Longrightarrow> x \<in> set new \<Longrightarrow> affected_ads x = [row_ad_id B row]"
  unfolding FrequencyAgent_row_def Let_def
  by (cases "get_value row ''frequency'' (Finite 0)"; cases "get_value row ''ctr'' (Finite 0)";
      cases "get_value row ''ctr_drop'' (Finite 0)")
     (auto split: if_splits)

lemma for_rows_concat:
  "for_rows body data acc = Inr out \<Longrightarrow>
   out = acc @ concat (map (\<lambda>row. emitted (body row)) data) \<and>
   (\<forall>row\<in>set data. \<exists>new. body row = Inr new)"
proof (induction data arbitrary: acc)
  case Nil
  then show ?case by simp
next
  case (Cons row rest)
  from Cons.prems obtain new where
    b: "body row = Inr new" and r: "for_rows body rest (acc @ new) = Inr out"
    by (cases "body row") simp_all
  from Cons.IH [OF r] b show ?case by (simp add: emitted_def)
qed

lemma for_rows_single: "emitted (for_rows body [row] []) = emitted (body row)"
  by (cases "body row") (simp_all add: emitted_def)

lemma for_rows_single_returns: "body row = Inr new \<Longrightarrow> for_rows body [row] [] = Inr new"
  by simp

lemma ROASAgent_row_length: "ROASAgent_row B row = Inr new \<Longrightarrow> length new \<le> 1"
  unfolding ROASAgent_row_def Let_def
  by (cases "get_value row ''roas'' (Finite 0)"; cases "get_value row ''spend'' (Finite 0)";
      cases "get_value row ''frequency'' (Finite 0)")
     (auto split: if_splits)

lemma CTRAgent_row_length: "CTRAgent_row B row = Inr new \<Longrightarrow> length new \<le> 1"
  unfolding CTRAgent_row_def Let_def
  by (cases "get_value row ''ctr'' (Finite 0)"; cases "get_value row ''ctr_7d'' (Finite 0)";
      cases "get_value row ''ctr_prev_7d'' (Finite 0)"; cases "get_value row ''ctr_drop'' (Finite 0)";
      cases "get_value row ''impressions'' (Finite 0)")
     (auto simp: bind_e_def split: if_splits sum.splits)

lemma ConversionAgent_row_length: "ConversionAgent_row B row = Inr new \<Longrightarrow> length new \<le> 1"
  unfolding ConversionAgent_row_def Let_def
  by (cases "get_value row ''atc_to_purchase'' (Finite 0)"; cases "get_value row ''ctr'' (Finite 0)";
      cases "get_value row ''add_to_cart'' (Finite 0)"; cases "get_value row ''purchases'' (Finite 0)")
     (auto simp: bind_e_def split: if_splits sum.splits)

lemma FrequencyAgent_row_length: "FrequencyAgent_row B row = Inr new \<Longrightarrow> length new \<le> 1"
  unfolding FrequencyAgent_row_def Let_def
  by (cases "get_value row ''frequency'' (Finite 0)"; cases "get_value row ''ctr'' (Finite 0)";
      cases "get_value row ''ctr_drop'' (Finite 0)")
     (auto split: if_splits)

text \<open>
  C10 (as amended). What an analyzer returns for a list of records is, record by record
  and in their order, what it returns for each record alone, at most one finding each.
  Every finding has exactly one affected ad, the string form of the \<open>ad_id\<close> value of the
  record it was made from, which is the literal \<open>unknown\<close> when that record has no
  \<open>ad_id\<close> key. The filter of \<open>decide_status\<close> therefore associates a finding with the
  records whose id has the same string form as that of the record it was made from:
  with that record alone when the ids of the records are pairwise different.
\<close>

theorem analyzers_affected_ads:
  assumes "analyze \<in> {ROASAgent_analyze, CTRAgent_analyze, ConversionAgent_analyze,
                        FrequencyAgent_analyze}"
    and "analyze B data = Inr findings"
  shows "findings = concat (map (\<lambda>row. emitted (analyze B [row])) data) \<and>
         (\<forall>row\<in>set data. \<exists>new. analyze B [row] = Inr new) \<and>
         (\<forall>row. \<forall>f\<in>set (emitted (analyze B [row])).
            length (emitted (analyze B [row])) \<le> 1 \<and>
            length (affected_ads f) = 1 \<and>
            affected_ads f = [row_ad_id B row] \<and>
            (\<forall>r. (row_ad_id B r \<in> set (affected_ads f)) = (row_ad_id B r = row_ad_id B row))) \<and>
         (\<forall>row. map_of row ''ad_id'' = None \<longrightarrow> row_ad_id B row = ''unknown'') \<and>
         (\<forall>row v. map_of row ''ad_id'' = Some v \<longrightarrow> row_ad_id B row = py_str B v) \<and>
         (distinct (map (row_ad_id B) data) \<longrightarrow>
            (\<forall>i<length data. \<forall>j<length data. \<forall>f\<in>set (emitted (analyze B [data ! i])).
               (row_ad_id B (data ! j) \<in> set (affected_ads f)) = (j = i)))"
proof -
  from assms(1) obtain body where
    an: "\<And>rows. analyze B rows = for_rows body rows []" and
    bd: "\<And>row new y. body row = Inr new \<Longrightarrow> y \<in> set new \<Longrightarrow> affected_ads y = [row_ad_id B row]" and
    bl: "\<And>row new. body row = Inr new \<Longrightarrow> length new \<le> 1"
  proof (elim insertE emptyE)
    assume "analyze = ROASAgent_analyze"
    then show thesis
      using that [of "ROASAgent_row B"] ROASAgent_row_ads ROASAgent_row_length
      by (simp add: ROASAgent_analyze_def)
  next
    assume "analyze = CTRAgent_analyze"
    then show thesis
      using that [of "CTRAgent_row B"] CTRAgent_row_ads CTRAgent_row_length
      by (simp add: CTRAgent_analyze_def)
  next
    assume "analyze = ConversionAgent_analyze"
    then show thesis
      using that [of "ConversionAgent_row B"] ConversionAgent_row_ads ConversionAgent_row_length
      by (simp add: ConversionAgent_analyze_def)
  next
    assume "analyze = FrequencyAgent_analyze"
    then show thesis
      using that [of "FrequencyAgent_row B"] FrequencyAgent_row_ads FrequencyAgent_row_length
      by (simp add: FrequencyAgent_analyze_def)
  qed
  have single: "emitted (analyze B [row]) = emitted (body row)" for row
    unfolding an by (rule for_rows_single)
  from assms(2) have fr: "for_rows body data [] = Inr findings" by (simp add: an)
  note c = for_rows_concat [OF fr]
  have 1: "findings = concat (map (\<lambda>row. emitted (analyze B [row])) data)"
    using c by (simp add: single)
  have 2: "\<forall>row\<in>set data. \<exists>new. analyze B [row] = Inr new"
  proof
    fix row assume "row \<in> set data"
    with c obtain new where "body row = Inr new" by blast
    then have "analyze B [row] = Inr new" unfolding an by simp
    then show "\<exists>new. analyze B [row] = Inr new" ..
  qed
  have own: "affected_ads f = [row_ad_id B row] \<and> length (emitted (analyze B [row])) \<le> 1"
    if "f \<in> set (emitted (analyze B [row]))" for row f
  proof -
    from that have m: "f \<in> set (emitted (body row))" by (simp only: single)
    show ?thesis
    proof (cases "body row")
      case (Inl e)
      with m show ?thesis by (simp add: emitted_def)
    next
      case (Inr new)
      with m have "f \<in> set new" by (simp add: emitted_def)
      with Inr bd have "affected_ads f = [row_ad_id B row]" by blast
      moreover from Inr bl have "length (emitted (body row)) \<le> 1" by (simp add: emitted_def)
      ultimately show ?thesis by (simp only: single)
    qed
  qed
  have 3: "\<forall>row. \<forall>f\<in>set (emitted (analyze B [row])).
            length (emitted (analyze B [row])) \<le> 1 \<and>
            length (affected_ads f) = 1 \<and>
            affected_ads f = [row_ad_id B row] \<and>
            (\<forall>r. (row_ad_id B r \<in> set (affected_ads f)) = (row_ad_id B r = row_ad_id B row))"
    using own by auto
  have 4: "\<forall>r. map_of r ''ad_id'' = None \<longrightarrow> row_ad_id B r = ''unknown''"
    by (simp add: row_ad_id_def py_str_def)
  have 5: "\<forall>r v. map_of r ''ad_id'' = Some v \<longrightarrow> row_ad_id B r = py_str B v"
    by (simp add: row_ad_id_def)
  have 6: "distinct (map (row_ad_id B) data) \<longrightarrow>
            (\<forall>i<length data. \<forall>j<length data. \<forall>f\<in>set (emitted (analyze B [data ! i])).
               (row_ad_id B (data ! j) \<in> set (affected_ads f)) = (j = i))"
  proof (intro impI allI ballI)
    fix i j f
    assume d: "distinct (map (row_ad_id B) data)" and i: "i < length data"
      and j: "j < length data" and f: "f \<in> set (emitted (analyze B [data ! i]))"
    from own [OF f] have a: "affected_ads f = [row_ad_id B (data ! i)]" by simp
    from nth_eq_iff_index_eq [OF d, of j i] i j
    have "(row_ad_id B (data ! j) = row_ad_id B (data ! i)) = (j = i)" by simp
    with a show "(row_ad_id B (data ! j) \<in> set (affected_ads f)) = (j = i)" by simp
  qed
  from 1 2 3 4 5 6 show ?thesis by blast
qed

lemma ex_ad_row_values:
  "get_value (ex_ad_row ad x) ''roas'' (Finite 0) = Inr (Finite x)"
  "get_value (ex_ad_row ad x) ''spend'' (Finite 0) = Inr (Finite 10)"
  "get_value (ex_ad_row ad x) ''frequency'' (Finite 0) = Inr (Finite 0)"
  "row_ad_id B (ex_ad_row ad x) = ad"
  "get_value (ex_no_id_row x) ''roas'' (Finite 0) = Inr (Finite x)"
  "get_value (ex_no_id_row x) ''spend'' (Finite 0) = Inr (Finite 10)"
  "get_value (ex_no_id_row x) ''frequency'' (Finite 0) = Inr (Finite 0)"
  "row_ad_id B (ex_no_id_row x) = ''unknown''"
  by (simp_all add: ex_ad_row_def ex_no_id_row_def coerce_defs row_ad_id_def py_str_def)

lemma ex_format_more:
  "format_fixed ex_builtins 2 (Finite 1.5) = ''1.50''"
  "format_fixed ex_builtins 2 (Finite 1.2) = ''1.20''"
  by (simp_all add: ex_display_defs)

lemma ex_ad_rows_analyzed:
  "ROASAgent_analyze ex_builtins
     [ex_ad_row ''ad_1'' 1.5, ex_ad_row ''ad_2'' 2.5, ex_ad_row ''ad_3'' 1.2]
   = Inr [ex_range_finding ''ad_1'' 1.5 ''1.50'', ex_range_finding ''ad_3'' 1.2 ''1.20'']"
  "ROASAgent_analyze ex_builtins [ex_ad_row ''ad_1'' 1.5]
   = Inr [ex_range_finding ''ad_1'' 1.5 ''1.50'']"
  "ROASAgent_analyze ex_builtins [ex_ad_row ''ad_2'' 2.5] = Inr []"
  "ROASAgent_analyze ex_builtins [ex_ad_row ''ad_3'' 1.2]
   = Inr [ex_range_finding ''ad_3'' 1.2 ''1.20'']"
  using ex_format_more
  by (simp_all add: ROASAgent_analyze_def ROASAgent_row_def ex_ad_row_values Let_def f_gt_def
        ex_range_finding_def)

text \<open>
  Three records with the ids \<open>ad_1\<close>, \<open>ad_2\<close> and \<open>ad_3\<close>: the first and the third get a
  finding, each with its own record's id, the second gets none.
\<close>

theorem analyzers_affected_ads_witness:
  "ROASAgent_analyze \<in> {ROASAgent_analyze, CTRAgent_analyze, ConversionAgent_analyze,
                          FrequencyAgent_analyze} \<and>
   ROASAgent_analyze ex_builtins
     [ex_ad_row ''ad_1'' 1.5, ex_ad_row ''ad_2'' 2.5, ex_ad_row ''ad_3'' 1.2]
   = Inr [ex_range_finding ''ad_1'' 1.5 ''1.50'', ex_range_finding ''ad_3'' 1.2 ''1.20''] \<and>
   [ex_range_finding ''ad_1'' 1.5 ''1.50'', ex_range_finding ''ad_3'' 1.2 ''1.20'']
   = concat (map (\<lambda>row. emitted (ROASAgent_analyze ex_builtins [row]))
       [ex_ad_row ''ad_1'' 1.5, ex_ad_row ''ad_2'' 2.5, ex_ad_row ''ad_3'' 1.2]) \<and>
   emitted (ROASAgent_analyze ex_builtins [ex_ad_row ''ad_1'' 1.5])
   = [ex_range_finding ''ad_1'' 1.5 ''1.50''] \<and>
   emitted (ROASAgent_analyze ex_builtins [ex_ad_row ''ad_2'' 2.5]) = [] \<and>
   emitted (ROASAgent_analyze ex_builtins [ex_ad_row ''ad_3'' 1.2])
   = [ex_range_finding ''ad_3'' 1.2 ''1.20''] \<and>
   affected_ads (ex_range_finding ''ad_1'' 1.5 ''1.50'') = [''ad_1''] \<and>
   affected_ads (ex_range_finding ''ad_3'' 1.2 ''1.20'') = [''ad_3''] \<and>
   row_ad_id ex_builtins (ex_ad_row ''ad_3'' 1.2) = ''ad_3'' \<and>
   distinct (map (row_ad_id ex_builtins)
     [ex_ad_row ''ad_1'' 1.5, ex_ad_row ''ad_2'' 2.5, ex_ad_row ''ad_3'' 1.2])"
proof -
  let ?data = "[ex_ad_row ''ad_1'' 1.5, ex_ad_row ''ad_2'' 2.5, ex_ad_row ''ad_3'' 1.2]"
  let ?out = "[ex_range_finding ''ad_1'' 1.5 ''1.50'', ex_range_finding ''ad_3'' 1.2 ''1.20'']"
  have m: "ROASAgent_analyze \<in> {ROASAgent_analyze, CTRAgent_analyze, ConversionAgent_analyze,
                          FrequencyAgent_analyze}" by simp
  note a = ex_ad_rows_analyzed
  from analyzers_affected_ads [OF m a(1)]
  have c: "?out = concat (map (\<lambda>row. emitted (ROASAgent_analyze ex_builtins [row])) ?data)"
    by (rule conjunct1)
  have e: "emitted (ROASAgent_analyze ex_builtins [ex_ad_row ''ad_1'' 1.5])
             = [ex_range_finding ''ad_1'' 1.5 ''1.50'']"
    "emitted (ROASAgent_analyze ex_builtins [ex_ad_row ''ad_2'' 2.5]) = []"
    "emitted (ROASAgent_analyze ex_builtins [ex_ad_row ''ad_3'' 1.2])
             = [ex_range_finding ''ad_3'' 1.2 ''1.20'']"
    using a by (simp_all add: emitted_def)
  have f: "affected_ads (ex_range_finding ''ad_1'' 1.5 ''1.50'') = [''ad_1'']"
    "affected_ads (ex_range_finding ''ad_3'' 1.2 ''1.20'') = [''ad_3'']"
    by (simp_all add: ex_range_finding_def)
  have d: "row_ad_id ex_builtins (ex_ad_row ''ad_3'' 1.2) = ''ad_3''"
    "distinct (map (row_ad_id ex_builtins) ?data)"
    by (simp_all add: ex_ad_row_values)
  from m a(1) c e f d show ?thesis by blast
qed

lemma ex_no_id_rows_analyzed:
  "ROASAgent_analyze ex_builtins [ex_no_id_row 1.5, ex_no_id_row 1.2]
   = Inr [ex_range_finding ''unknown'' 1.5 ''1.50'', ex_range_finding ''unknown'' 1.2 ''1.20'']"
  "ROASAgent_analyze ex_builtins [ex_no_id_row 1.5]
   = Inr [ex_range_finding ''unknown'' 1.5 ''1.50'']"
  using ex_format_more
  by (simp_all add: ROASAgent_analyze_def ROASAgent_row_def ex_ad_row_values Let_def f_gt_def
        ex_range_finding_def)

text \<open>
  The claim as first stated has every finding associated with exactly one record. Two
  different records without an \<open>ad_id\<close> key both have the id \<open>unknown\<close>: the finding made
  from the first is also selected by the filter of \<open>decide_status\<close> for the second.
\<close>

theorem shared_unknown_id:
  "ROASAgent_analyze ex_builtins [ex_no_id_row 1.5, ex_no_id_row 1.2]
   = Inr [ex_range_finding ''unknown'' 1.5 ''1.50'', ex_range_finding ''unknown'' 1.2 ''1.20''] \<and>
   ROASAgent_analyze ex_builtins [ex_no_id_row 1.5]
   = Inr [ex_range_finding ''unknown'' 1.5 ''1.50''] \<and>
   ex_no_id_row 1.5 \<noteq> ex_no_id_row 1.2 \<and>
   row_ad_id ex_builtins (ex_no_id_row 1.5)
     \<in> set (affected_ads (ex_range_finding ''unknown'' 1.5 ''1.50'')) \<and>
   row_ad_id ex_builtins (ex_no_id_row 1.2)
     \<in> set (affected_ads (ex_range_finding ''unknown'' 1.5 ''1.50'')) \<and>
   filter (\<lambda>i. row_ad_id ex_builtins (ex_no_id_row 1.2) \<in> set (affected_ads i))
     [ex_range_finding ''unknown'' 1.5 ''1.50'', ex_range_finding ''unknown'' 1.2 ''1.20'']
   = [ex_range_finding ''unknown'' 1.5 ''1.50'', ex_range_finding ''unknown'' 1.2 ''1.20'']"
proof -
  have n: "ex_no_id_row 1.5 \<noteq> ex_no_id_row 1.2" by (simp add: ex_no_id_row_def)
  have a: "affected_ads (ex_range_finding ''unknown'' x shown) = [''unknown'']" for x shown
    by (simp add: ex_range_finding_def)
  have r: "row_ad_id ex_builtins (ex_no_id_row 1.5)
             \<in> set (affected_ads (ex_range_finding ''unknown'' 1.5 ''1.50''))"
    "row_ad_id ex_builtins (ex_no_id_row 1.2)
             \<in> set (affected_ads (ex_range_finding ''unknown'' 1.5 ''1.50''))"
    by (simp_all add: a ex_ad_row_values)
  have f: "filter (\<lambda>i. row_ad_id ex_builtins (ex_no_id_row 1.2) \<in> set (affected_ads i))
     [ex_range_finding ''unknown'' 1.5 ''1.50'', ex_range_finding ''unknown'' 1.2 ''1.20'']
   = [ex_range_finding ''unknown'' 1.5 ''1.50'', ex_range_finding ''unknown'' 1.2 ''1.20'']"
    by (simp add: a ex_ad_row_values)
  from ex_no_id_rows_analyzed n r f show ?thesis by blast
qed

lemma ex_roas_row_values:
  "get_value (ex_roas_row x) ''roas'' (Finite 0) = Inr (Finite x)"
  "get_value (ex_roas_row x) ''spend'' (Finite 0) = Inr (Finite 10)"
  "get_value (ex_roas_row x) ''frequency'' (Finite 0) = Inr (Finite 0)"
  "row_ad_id B (ex_roas_row x) = ''ad_7''"
  by (simp_all add: ex_roas_row_def coerce_defs row_ad_id_def py_str_def)

section \<open>The ROAS analyzer: its boundaries\<close>

text \<open>
  C2. On a record whose coerced \<open>roas\<close> is \<open>x\<close>, the ROAS analyzer emits the high-priority
  finding of the 1-2 range exactly when \<open>1 \<le> x \<le> 2\<close>, both bounds included; for
  \<open>2 < x \<le> 3\<close> it emits nothing, so nothing at \<open>2.0001\<close> and nothing at \<open>3.0\<close>; for
  \<open>3 < x\<close>, so at \<open>3.0001\<close>, it emits the medium-priority finding of high performance.
\<close>

theorem ROASAgent_boundaries:
  assumes "get_value row ''roas'' (Finite 0) = Inr (Finite x)"
    and "get_value row ''spend'' (Finite 0) = Inr spend"
    and "get_value row ''frequency'' (Finite 0) = Inr frequency"
  shows "(1 \<le> x \<and> x \<le> 2 \<longrightarrow>
            ROASAgent_analyze B [row] =
              Inr [\<lparr>category = ROAS,
                    condition = ''ROAS '' @ format_fixed B 2 (Finite x) @ '' (1-2 range)'',
                    recommendation = ''Test 2-3 new hooks/thumbnails; rotate in new ad creative; cap frequency to avoid fatigue'',
                    priority = ''high'',
                    affected_ads = [row_ad_id B row],
                    metrics = [(''roas'', Finite x), (''spend'', spend),
                               (''frequency'', frequency)]\<rparr>]) \<and>
         (2 < x \<and> x \<le> 3 \<longrightarrow> ROASAgent_analyze B [row] = Inr []) \<and>
         (3 < x \<longrightarrow>
            ROASAgent_analyze B [row] =
              Inr [\<lparr>category = ROAS,
                    condition = ''ROAS '' @ format_fixed B 2 (Finite x) @ '' (high performance)'',
                    recommendation = ''Scale budget by 20-30%; create lookalike audiences; duplicate winning creative'',
                    priority = ''medium'',
                    affected_ads = [row_ad_id B row],
                    metrics = [(''roas'', Finite x), (''spend'', spend)]\<rparr>])"
  using assms by (simp add: ROASAgent_analyze_def ROASAgent_row_def Let_def f_gt_def)

text \<open>The five boundary values \<open>1.0\<close>, \<open>2.0\<close>, \<open>2.0001\<close>, \<open>3.0\<close> and \<open>3.0001\<close>.\<close>

theorem ROASAgent_boundaries_witness:
  "get_value (ex_roas_row 1) ''roas'' (Finite 0) = Inr (Finite 1) \<and>
   get_value (ex_roas_row 1) ''spend'' (Finite 0) = Inr (Finite 10) \<and>
   get_value (ex_roas_row 1) ''frequency'' (Finite 0) = Inr (Finite 0) \<and>
   (1::real) \<le> 1 \<and> (1::real) \<le> 2 \<and>
   ROASAgent_analyze ex_builtins [ex_roas_row 1] =
     Inr [\<lparr>category = ROAS, condition = ''ROAS 1.00 (1-2 range)'',
           recommendation = ''Test 2-3 new hooks/thumbnails; rotate in new ad creative; cap frequency to avoid fatigue'',
           priority = ''high'', affected_ads = [''ad_7''],
           metrics = [(''roas'', Finite 1), (''spend'', Finite 10), (''frequency'', Finite 0)]\<rparr>] \<and>
   ROASAgent_analyze ex_builtins [ex_roas_row 2] =
     Inr [\<lparr>category = ROAS, condition = ''ROAS 2.00 (1-2 range)'',
           recommendation = ''Test 2-3 new hooks/thumbnails; rotate in new ad creative; cap frequency to avoid fatigue'',
           priority = ''high'', affected_ads = [''ad_7''],
           metrics = [(''roas'', Finite 2), (''spend'', Finite 10), (''frequency'', Finite 0)]\<rparr>] \<and>
   ROASAgent_analyze ex_builtins [ex_roas_row 2.0001] = Inr [] \<and>
   ROASAgent_analyze ex_builtins [ex_roas_row 3] = Inr [] \<and>
   ROASAgent_analyze ex_builtins [ex_roas_row 3.0001] =
     Inr [\<lparr>category = ROAS, condition = ''ROAS 3.00 (high performance)'',
           recommendation = ''Scale budget by 20-30%; create lookalike audiences; duplicate winning creative'',
           priority = ''medium'', affected_ads = [''ad_7''],
           metrics = [(''roas'', Finite 3.0001), (''spend'', Finite 10)]\<rparr>]"
proof -
  note v = ex_roas_row_values
  have f: "format_fixed ex_builtins 2 (Finite 1) = ''1.00''"
    "format_fixed ex_builtins 2 (Finite 2) = ''2.00''"
    "format_fixed ex_builtins 2 (Finite 3.0001) = ''3.00''"
    by (simp_all add: ex_display_defs)
  from ROASAgent_boundaries [OF v(1-3) [of 1], where B = ex_builtins]
       ROASAgent_boundaries [OF v(1-3) [of 2], where B = ex_builtins]
       ROASAgent_boundaries [OF v(1-3) [of "2.0001"], where B = ex_builtins]
       ROASAgent_boundaries [OF v(1-3) [of 3], where B = ex_builtins]
       ROASAgent_boundaries [OF v(1-3) [of "3.0001"], where B = ex_builtins]
  show ?thesis using f by (simp add: v)
qed

section \<open>The workflow on the scenario record\<close>

lemma contains_append_left: "contains p s \<Longrightarrow> contains p (t @ s)"
  by (induction t) auto

lemma ex_scenario_values:
  "get_value ex_scenario_row ''roas'' (Finite 0) = Inr (Finite 1.8)"
  "get_value ex_scenario_row ''spend'' (Finite 0) = Inr (Finite 1500)"
  "get_value ex_scenario_row ''frequency'' (Finite 0) = Inr (Finite 2.8)"
  "get_value ex_scenario_row ''ctr'' (Finite 0) = Inr (Finite 1.6)"
  "get_value ex_scenario_row ''ctr_7d'' (Finite 0) = Inr (Finite 0)"
  "get_value ex_scenario_row ''ctr_prev_7d'' (Finite 0) = Inr (Finite 0)"
  "get_value ex_scenario_row ''ctr_drop'' (Finite 0) = Inr (Finite 0)"
  "get_value ex_scenario_row ''impressions'' (Finite 0) = Inr (Finite 75000)"
  "get_value ex_scenario_row ''atc_to_purchase'' (Finite 0) = Inr (Finite 37.5)"
  "get_value ex_scenario_row ''add_to_cart'' (Finite 0) = Inr (Finite 120)"
  "get_value ex_scenario_row ''purchases'' (Finite 0) = Inr (Finite 45)"
  "get_value ex_scenario_row ''purchase_value'' (Finite 0) = Inr (Finite 2700)"
  "get_value ex_scenario_row ''clicks'' (Finite 0) = Inr (Finite 0)"
  "row_ad_id B ex_scenario_row = ''unknown''"
  "row_ad_name B ex_scenario_row = ''unknown''"
  by (simp_all add: ex_scenario_row_def coerce_defs row_ad_id_def row_ad_name_def py_str_def)

lemma scenario_ROASAgent:
  "ROASAgent_analyze B [ex_scenario_row] = Inr [scenario_roas_finding B]"
  by (simp add: ROASAgent_analyze_def ROASAgent_row_def ex_scenario_values Let_def f_gt_def
        scenario_roas_finding_def)

lemma scenario_CTRAgent: "CTRAgent_analyze B [ex_scenario_row] = Inr []"
  by (simp add: CTRAgent_analyze_def CTRAgent_row_def ex_scenario_values Let_def f_gt_def)

lemma scenario_ConversionAgent:
  "ConversionAgent_analyze B [ex_scenario_row] = Inr [scenario_conversion_finding B]"
  by (simp add: ConversionAgent_analyze_def ConversionAgent_row_def ex_scenario_values Let_def
        f_gt_def scenario_conversion_finding_def)

lemma scenario_FrequencyAgent: "FrequencyAgent_analyze B [ex_scenario_row] = Inr []"
  by (simp add: FrequencyAgent_analyze_def FrequencyAgent_row_def ex_scenario_values Let_def
        f_gt_def)

lemma scenario_overview:
  "calc_metrics_overview [ex_scenario_row] =
     Inr \<lparr>total_spend = Finite 1500, total_revenue = Finite 2700, overall_roas = Finite 1.8,
          total_purchases = Finite 45, total_clicks = Finite 0,
          total_impressions = Finite 75000, overall_ctr = Finite 0, total_ads = 1\<rparr>"
  by (simp add: calc_metrics_overview_def ex_scenario_values f_gt_def f_norm_small)

lemma scenario_sorted:
  "all_insights_of [scenario_roas_finding B] [] [scenario_conversion_finding B] [] =
     [scenario_roas_finding B, scenario_conversion_finding B]"
  by (simp add: all_insights_of_def sort_insights_def scenario_roas_finding_def
        scenario_conversion_finding_def priority_order_def)

lemma scenario_decide_status:
  "decide_status B ex_scenario_row [scenario_roas_finding B, scenario_conversion_finding B] =
     Inr (scenario_decision B)"
  by (simp add: decide_status_def status_cascade_def ex_scenario_values Let_def f_gt_def
        scenario_roas_finding_def scenario_conversion_finding_def scenario_decision_def)

text \<open>
  C8. On the single record \<open>{spend: 1500, roas: 1.8, ctr: 1.6, frequency: 2.8,
  impressions: 75000, purchases: 45, purchase_value: 2700, add_to_cart: 120,
  atc_to_purchase: 37.5}\<close> the ROAS analyzer emits one high-priority finding whose
  condition contains \<open>1-2 range\<close>, the CTR analyzer nothing, the conversion analyzer one
  low-priority finding whose condition contains \<open>Strong ATC\<rightarrow>Purchase rate\<close>, the
  frequency analyzer nothing, and the workflow decides the status test.
\<close>

theorem scenario_pipeline:
  "ROASAgent_analyze B [ex_scenario_row] = Inr [scenario_roas_finding B] \<and>
   category (scenario_roas_finding B) = ROAS \<and>
   priority (scenario_roas_finding B) = ''high'' \<and>
   contains ''1-2 range'' (condition (scenario_roas_finding B)) \<and>
   CTRAgent_analyze B [ex_scenario_row] = Inr [] \<and>
   ConversionAgent_analyze B [ex_scenario_row] = Inr [scenario_conversion_finding B] \<and>
   category (scenario_conversion_finding B) = CONVERSION \<and>
   priority (scenario_conversion_finding B) = ''low'' \<and>
   contains (''Strong ATC'' @ arrow @ ''Purchase rate'')
     (condition (scenario_conversion_finding B)) \<and>
   FrequencyAgent_analyze B [ex_scenario_row] = Inr [] \<and>
   run B [ex_scenario_row] =
     Inr ([scenario_roas_finding B, scenario_conversion_finding B],
          \<lparr>total_spend = Finite 1500, total_revenue = Finite 2700, overall_roas = Finite 1.8,
           total_purchases = Finite 45, total_clicks = Finite 0,
           total_impressions = Finite 75000, overall_ctr = Finite 0, total_ads = 1\<rparr>,
          [scenario_decision B]) \<and>
   status (scenario_decision B) = TEST"
proof -
  have c1: "contains ''1-2 range'' (condition (scenario_roas_finding B))"
  proof -
    have "contains ''1-2 range'' '' (1-2 range)''" by simp
    then have "contains ''1-2 range'' ((''ROAS '' @ format_fixed B 2 (Finite 1.8)) @ '' (1-2 range)'')"
      by (rule contains_append_left)
    then show ?thesis by (simp add: scenario_roas_finding_def)
  qed
  have c2: "contains (''Strong ATC'' @ arrow @ ''Purchase rate'')
     (condition (scenario_conversion_finding B))"
    by (simp add: scenario_conversion_finding_def arrow_def)
  have r: "run B [ex_scenario_row] =
     Inr ([scenario_roas_finding B, scenario_conversion_finding B],
          \<lparr>total_spend = Finite 1500, total_revenue = Finite 2700, overall_roas = Finite 1.8,
           total_purchases = Finite 45, total_clicks = Finite 0,
           total_impressions = Finite 75000, overall_ctr = Finite 0, total_ads = 1\<rparr>,
          [scenario_decision B])"
    by (simp add: run_def scenario_ROASAgent scenario_CTRAgent scenario_ConversionAgent
          scenario_FrequencyAgent
          aggregate_insights_def scenario_sorted scenario_overview scenario_decide_status)
  have p: "category (scenario_roas_finding B) = ROAS" "priority (scenario_roas_finding B) = ''high''"
    "category (scenario_conversion_finding B) = CONVERSION"
    "priority (scenario_conversion_finding B) = ''low''"
    "status (scenario_decision B) = TEST"
    by (simp_all add: scenario_roas_finding_def scenario_conversion_finding_def scenario_decision_def)
  show ?thesis
    using c1 c2 r p scenario_ROASAgent scenario_CTRAgent scenario_ConversionAgent
      scenario_FrequencyAgent
    by blast
qed

section \<open>The column mapper when the collaborator fails\<close>

lemma first_pass_result:
  "first_pass cols m u = (m', u') \<Longrightarrow>
   u' = u @ filter (\<lambda>c. fuzzy_match c = None) cols \<and>
   (distinct (map fst m) \<longrightarrow> distinct (map fst m')) \<and>
   map_of m' = (\<lambda>c. if c \<in> set cols \<and> fuzzy_match c \<noteq> None then fuzzy_match c
                      else map_of m c)"
proof (induction cols arbitrary: m u)
  case Nil
  then show ?case by simp
next
  case (Cons col cols)
  show ?case
  proof (cases "fuzzy_match col")
    case None
    with Cons.prems have "first_pass cols m (u @ [col]) = (m', u')" by simp
    from Cons.IH [OF this] None show ?thesis by (auto simp: fun_eq_iff)
  next
    case (Some matched)
    with Cons.prems have "first_pass cols (AList.update col matched m) u = (m', u')" by simp
    from Cons.IH [OF this] Some show ?thesis
      by (auto simp: distinct_update update_conv' fun_eq_iff)
  qed
qed

lemma dict_update_result:
  "(distinct (map fst m) \<longrightarrow> distinct (map fst (dict_update m entries))) \<and>
   (\<forall>c. c \<notin> fst ` set entries \<longrightarrow> map_of (dict_update m entries) c = map_of m c)"
  unfolding dict_update_def
proof (induction entries arbitrary: m)
  case Nil
  then show ?case by simp
next
  case (Cons e entries)
  obtain k v where e: "e = (k, v)" by (cases e)
  from Cons.IH [of "AList.update k v m"] show ?case
    by (auto simp: e distinct_update update_conv')
qed

lemma mark_unknown_result:
  "(distinct (map fst m) \<longrightarrow>
      distinct (map fst (foldl (\<lambda>m col. AList.update col v m) m unmapped))) \<and>
   map_of (foldl (\<lambda>m col. AList.update col v m) m unmapped)
     = (\<lambda>c. if c \<in> set unmapped then Some v else map_of m c)"
proof (induction unmapped arbitrary: m)
  case Nil
  then show ?case by simp
next
  case (Cons col unmapped)
  from Cons.IH [of "AList.update col v m"] show ?case
    by (auto simp: distinct_update update_conv' fun_eq_iff)
qed

lemma map_columns_with_llm_raised:
  assumes "llm (filter (\<lambda>c. fuzzy_match c = None) columns) = Raised merged"
  shows "distinct (map fst (map_columns_with_llm llm columns))"
    and "c \<in> set columns \<Longrightarrow> fuzzy_match c = None \<Longrightarrow>
         map_of (map_columns_with_llm llm columns) c = Some ''unknown''"
    and "c \<in> set columns \<Longrightarrow> fuzzy_match c = Some s \<Longrightarrow> c \<notin> fst ` set merged \<Longrightarrow>
         map_of (map_columns_with_llm llm columns) c = Some s"
proof -
  obtain mapping unmapped where fp: "first_pass columns [] [] = (mapping, unmapped)"
    by (cases "first_pass columns [] []")
  from first_pass_result [OF fp] have
    u: "unmapped = filter (\<lambda>c. fuzzy_match c = None) columns" and
    d: "distinct (map fst mapping)" and
    m: "map_of mapping = (\<lambda>c. if c \<in> set columns \<and> fuzzy_match c \<noteq> None then fuzzy_match c
                              else None)"
    by (auto simp: fun_eq_iff)
  let ?res = "foldl (\<lambda>m col. AList.update col ''unknown'' m) (dict_update mapping merged) unmapped"
  have r: "map_columns_with_llm llm columns = (if unmapped \<noteq> [] then ?res else mapping)"
    using assms fp u by (simp add: map_columns_with_llm_def)
  from d dict_update_result [of mapping merged]
  have dd: "distinct (map fst (dict_update mapping merged))" by blast
  with mark_unknown_result [of "dict_update mapping merged" "''unknown''" unmapped]
  have dr: "distinct (map fst ?res)" by blast
  show "distinct (map fst (map_columns_with_llm llm columns))"
    using r d dr by simp
  have mr: "map_of ?res = (\<lambda>c. if c \<in> set unmapped then Some ''unknown''
                                 else map_of (dict_update mapping merged) c)"
    using mark_unknown_result [of "dict_update mapping merged" "''unknown''" unmapped] by blast
  { assume c: "c \<in> set columns" "fuzzy_match c = None"
    then have "c \<in> set unmapped" by (simp add: u)
    then show "map_of (map_columns_with_llm llm columns) c = Some ''unknown''"
      using r mr by auto }
  { assume c: "c \<in> set columns" "fuzzy_match c = Some s" "c \<notin> fst ` set merged"
    then have "c \<notin> set unmapped" by (simp add: u)
    moreover from c dict_update_result [of mapping merged]
    have "map_of (dict_update mapping merged) c = map_of mapping c" by blast
    ultimately show "map_of (map_columns_with_llm llm columns) c = Some s"
      using r mr m c by auto }
qed

lemma normalize_row_keys:
  "fst ` set (foldl (\<lambda>new_row (orig_col, value). AList.update (t orig_col) value new_row) acc row)
     = fst ` set acc \<union> t ` fst ` set row"
proof (induction row arbitrary: acc)
  case Nil
  then show ?case by simp
next
  case (Cons e row)
  obtain k v where e: "e = (k, v)" by (cases e)
  from Cons.IH [of "AList.update (t k) v acc"] show ?case
    by (auto simp: e dom_update)
qed

lemma normalize_row_lookup:
  "map_of (foldl (\<lambda>new_row (orig_col, value). AList.update (t orig_col) value new_row) acc row) k
     = (case map_of (rev (map (\<lambda>(orig_col, value). (t orig_col, value)) row)) k of
          Some v \<Rightarrow> Some v | None \<Rightarrow> map_of acc k)"
proof (induction row arbitrary: acc)
  case Nil
  then show ?case by simp
next
  case (Cons e row)
  obtain oc v where e: "e = (oc, v)" by (cases e)
  from Cons.IH [of "AList.update (t oc) v acc"] show ?case
    by (auto simp: e update_conv' map_add_def split: option.splits)
qed

lemma map_of_unique:
  "(k, v) \<in> set l \<Longrightarrow> (\<And>w. (k, w) \<in> set l \<Longrightarrow> w = v) \<Longrightarrow> map_of l k = Some v"
  by (metis map_of_SomeD weak_map_of_SomeI)

lemma reverse_map_lookup:
  assumes "distinct (map fst m)"
  shows "map_of (filter (\<lambda>(orig, std). std \<noteq> ''unknown'') m) c
           = (case map_of m c of
                Some std \<Rightarrow> if std \<noteq> ''unknown'' then Some std else None
              | None \<Rightarrow> None)"
  using assms
proof (induction m)
  case Nil
  then show ?case by simp
next
  case (Cons e m)
  obtain k v where e: "e = (k, v)" by (cases e)
  from Cons show ?case
    by (auto simp: e map_of_eq_None_iff image_iff split: option.splits)
qed

lemma normalize_data_given:
  "normalize_data llm data (Some m)
     = map (normalize_row (filter (\<lambda>(orig, std). std \<noteq> ''unknown'') m)) data"
  by (cases data) (simp_all add: normalize_data_def Let_def)

lemma normalize_row_unrenamed:
  assumes d: "distinct (map fst m)"
    and c: "c \<in> fst ` set row"
    and u: "map_of m c = Some ''unknown'' \<or> map_of m c = None"
  shows "c \<in> fst ` set (normalize_row (filter (\<lambda>(orig, std). std \<noteq> ''unknown'') m) row)"
    and "distinct (map fst row) \<Longrightarrow> (\<And>oc. oc \<in> fst ` set row \<Longrightarrow> oc \<noteq> c \<Longrightarrow> map_of m oc \<noteq> Some c)
         \<Longrightarrow> map_of (normalize_row (filter (\<lambda>(orig, std). std \<noteq> ''unknown'') m) row) c
               = map_of row c"
proof -
  let ?rm = "filter (\<lambda>(orig, std). std \<noteq> ''unknown'') m"
  let ?t = "\<lambda>oc. case map_of ?rm oc of Some std \<Rightarrow> std | None \<Rightarrow> oc"
  let ?g = "\<lambda>(orig_col, value). (?t orig_col, value)"
  have nr: "normalize_row ?rm row
              = foldl (\<lambda>new_row (orig_col, value). AList.update (?t orig_col) value new_row) [] row"
    by (simp add: normalize_row_def)
  from u have "map_of ?rm c = None"
    by (auto simp: reverse_map_lookup [OF d])
  then have tc: "?t c = c" by simp
  have "fst ` set (normalize_row ?rm row) = ?t ` fst ` set row"
    unfolding nr by (simp add: normalize_row_keys)
  with c tc show "c \<in> fst ` set (normalize_row ?rm row)" by force
  assume dr: "distinct (map fst row)"
    and other: "\<And>oc. oc \<in> fst ` set row \<Longrightarrow> oc \<noteq> c \<Longrightarrow> map_of m oc \<noteq> Some c"
  from c obtain v where v: "(c, v) \<in> set row" by auto
  with dr have rv: "map_of row c = Some v" by simp
  have only: "oc = c" if "(oc, w) \<in> set row" "?t oc = c" for oc w
  proof (rule ccontr)
    assume ne: "oc \<noteq> c"
    with that(2) have "map_of ?rm oc = Some c" by (auto split: option.splits)
    then have "map_of m oc = Some c"
      by (auto simp: reverse_map_lookup [OF d] split: option.splits if_splits)
    moreover from that(1) have "oc \<in> fst ` set row" by force
    ultimately show False using other ne by blast
  qed
  have "map_of (rev (map ?g row)) c = Some v"
  proof (rule map_of_unique)
    from v tc show "(c, v) \<in> set (rev (map ?g row))" by force
  next
    fix w assume "(c, w) \<in> set (rev (map ?g row))"
    then obtain oc where oc: "(oc, w) \<in> set row" "?t oc = c" by auto
    from only [OF oc] oc(1) have "(c, w) \<in> set row" by simp
    with dr v show "w = v" by (meson eq_key_imp_eq_value)
  qed
  then show "map_of (normalize_row ?rm row) c = map_of row c"
    unfolding nr by (simp add: normalize_row_lookup rv)
qed

text \<open>
  C7. When the \<open>try\<close> block of \<open>map_columns_with_llm\<close> raises, the function still returns a
  mapping, and in it every column that fuzzy matching left unresolved is mapped to
  \<open>unknown\<close>; a fuzzy-matched column keeps its match unless the block had merged an entry
  for it before raising. \<open>normalize_data\<close> with that mapping returns one record per input
  record, and a column whose mapping is \<open>unknown\<close> or that is absent from the mapping is a
  key of the normalized record; it has its original value there when no other column of
  the record is mapped to its name.
\<close>

theorem llm_failure_degrades:
  assumes "llm (filter (\<lambda>c. fuzzy_match c = None) columns) = Raised merged"
  shows
    "(\<forall>c\<in>set columns. fuzzy_match c = None \<longrightarrow>
        map_of (map_columns_with_llm llm columns) c = Some ''unknown'') \<and>
     (\<forall>c\<in>set columns. \<forall>s. fuzzy_match c = Some s \<and> c \<notin> fst ` set merged \<longrightarrow>
        map_of (map_columns_with_llm llm columns) c = Some s) \<and>
     length (normalize_data llm data (Some (map_columns_with_llm llm columns))) = length data \<and>
     (\<forall>i<length data. \<forall>c\<in>fst ` set (data ! i).
        map_of (map_columns_with_llm llm columns) c = Some ''unknown''
          \<or> map_of (map_columns_with_llm llm columns) c = None \<longrightarrow>
        c \<in> fst ` set (normalize_data llm data (Some (map_columns_with_llm llm columns)) ! i) \<and>
        (distinct (map fst (data ! i)) \<and>
         (\<forall>oc\<in>fst ` set (data ! i).
            oc \<noteq> c \<longrightarrow> map_of (map_columns_with_llm llm columns) oc \<noteq> Some c) \<longrightarrow>
         map_of (normalize_data llm data (Some (map_columns_with_llm llm columns)) ! i) c
           = map_of (data ! i) c)) \<and>
     (\<forall>first rest. data = first # rest \<and> columns = map fst first \<longrightarrow>
        normalize_data llm data None
          = normalize_data llm data (Some (map_columns_with_llm llm columns)))"
proof -
  let ?M = "map_columns_with_llm llm columns"
  note r = map_columns_with_llm_raised
    [where llm = llm and columns = columns and merged = merged, OF assms]
  have "\<forall>c\<in>set columns. fuzzy_match c = None \<longrightarrow> map_of ?M c = Some ''unknown''"
    using r(2) by blast
  moreover have "\<forall>c\<in>set columns. \<forall>s. fuzzy_match c = Some s \<and> c \<notin> fst ` set merged \<longrightarrow>
        map_of ?M c = Some s"
    using r(3) by blast
  moreover have "length (normalize_data llm data (Some ?M)) = length data"
    by (simp add: normalize_data_given)
  moreover have "\<forall>i<length data. \<forall>c\<in>fst ` set (data ! i).
        map_of ?M c = Some ''unknown'' \<or> map_of ?M c = None \<longrightarrow>
        c \<in> fst ` set (normalize_data llm data (Some ?M) ! i) \<and>
        (distinct (map fst (data ! i)) \<and>
         (\<forall>oc\<in>fst ` set (data ! i). oc \<noteq> c \<longrightarrow> map_of ?M oc \<noteq> Some c) \<longrightarrow>
         map_of (normalize_data llm data (Some ?M) ! i) c = map_of (data ! i) c)"
  proof (intro allI impI ballI)
    fix i c
    assume i: "i < length data" and c: "c \<in> fst ` set (data ! i)"
      and u: "map_of ?M c = Some ''unknown'' \<or> map_of ?M c = None"
    note n = normalize_row_unrenamed [OF r(1) c u]
    from i have e: "normalize_data llm data (Some ?M) ! i
        = normalize_row (filter (\<lambda>(orig, std). std \<noteq> ''unknown'') ?M) (data ! i)"
      by (simp add: normalize_data_given)
    show "c \<in> fst ` set (normalize_data llm data (Some ?M) ! i) \<and>
        (distinct (map fst (data ! i)) \<and>
         (\<forall>oc\<in>fst ` set (data ! i). oc \<noteq> c \<longrightarrow> map_of ?M oc \<noteq> Some c) \<longrightarrow>
         map_of (normalize_data llm data (Some ?M) ! i) c = map_of (data ! i) c)"
      unfolding e using n by blast
  qed
  moreover have "\<forall>first rest. data = first # rest \<and> columns = map fst first \<longrightarrow>
        normalize_data llm data None = normalize_data llm data (Some ?M)"
    by (simp add: normalize_data_def)
  ultimately show ?thesis by blast
qed

text \<open>
  The columns \<open>Spend\<close> and \<open>zzz\<close> with a collaborator whose call fails: \<open>zzz\<close> is mapped to
  \<open>unknown\<close> and stays under its own name.
\<close>

lemma ex_mapping:
  "map_columns_with_llm ex_failing_llm [''Spend'', ''zzz'']
     = [(''Spend'', ''spend''), (''zzz'', ''unknown'')]"
proof -
  have "fuzzy_match ''Spend'' = Some ''spend''" "fuzzy_match ''zzz'' = None"
    by code_simp+
  then show ?thesis
    by (simp add: map_columns_with_llm_def ex_failing_llm_def dict_update_def)
qed

theorem llm_failure_degrades_witness:
  "ex_failing_llm (filter (\<lambda>c. fuzzy_match c = None) [''Spend'', ''zzz'']) = Raised [] \<and>
   map_columns_with_llm ex_failing_llm [''Spend'', ''zzz'']
     = [(''Spend'', ''spend''), (''zzz'', ''unknown'')] \<and>
   normalize_data ex_failing_llm [ex_raw_row] None = [[(''spend'', PInt 5), (''zzz'', PInt 7)]] \<and>
   ''zzz'' \<in> set [''Spend'', ''zzz''] \<and> fuzzy_match ''zzz'' = None \<and>
   ''Spend'' \<in> set [''Spend'', ''zzz''] \<and> fuzzy_match ''Spend'' = Some ''spend'' \<and>
   (0::nat) < length [ex_raw_row] \<and> ''zzz'' \<in> fst ` set ([ex_raw_row] ! 0) \<and>
   distinct (map fst ([ex_raw_row] ! 0)) \<and>
   map_of ([[(''spend'', PInt 5), (''zzz'', PInt 7)]] ! 0) ''zzz'' = Some (PInt 7)"
proof -
  have a: "ex_failing_llm (filter (\<lambda>c. fuzzy_match c = None) [''Spend'', ''zzz'']) = Raised []"
    by (simp add: ex_failing_llm_def)
  have f: "fuzzy_match ''Spend'' = Some ''spend''" "fuzzy_match ''zzz'' = None"
    by code_simp+
  have n: "normalize_data ex_failing_llm [ex_raw_row] None
             = [[(''spend'', PInt 5), (''zzz'', PInt 7)]]"
    by (simp add: normalize_data_def ex_raw_row_def ex_mapping normalize_row_def)
  from llm_failure_degrades [where llm = ex_failing_llm and columns = "[''Spend'', ''zzz'']"
      and merged = "[]" and data = "[ex_raw_row]", OF a]
  have "length (normalize_data ex_failing_llm [ex_raw_row]
          (Some (map_columns_with_llm ex_failing_llm [''Spend'', ''zzz''])))
        = length [ex_raw_row]"
    by blast
  then have l: "(0::nat) < length [ex_raw_row]" by simp
  show ?thesis using a f n l ex_mapping by (simp add: ex_raw_row_def)
qed

end
